theory Spec2Isabelle
  imports Main "HOL-Library.AList" "HOL-Library.Multiset"
begin

section \<open>Settings of the Redpanda module (opts.go)\<close>

text \<open>
  The \<open>options\<close> struct. \<open>ServiceAccounts\<close> is a Go \<open>map[string]string\<close>; it is kept
  as an association list with one entry for each key (\<open>AList.update\<close> writes a key,
  \<open>map_of\<close> reads one), so that its length and its entries can be computed.
\<close>

record options =
  Superusers :: "string list"
  KafkaEnableAuthorization :: bool
  KafkaAuthenticationMethod :: string
  SchemaRegistryAuthenticationMethod :: string
  ServiceAccounts :: "(string \<times> string) list"
  Image :: string

definition defaultOptions :: options where
  "defaultOptions =
     \<lparr> Superusers = [],
       KafkaEnableAuthorization = False,
       KafkaAuthenticationMethod = ''none'',
       SchemaRegistryAuthenticationMethod = ''none'',
       ServiceAccounts = [],
       Image = ''docker.redpanda.com/redpandadata/redpanda:v23.1.6'' \<rparr>"

text \<open>
  \<open>type Option func(*options)\<close>: the mutation through the pointer is the returned value.
  The functions below are declared in opts.go with the result type
  \<open>testcontainers.CustomizeRequestOption\<close>, but what each returns is a closure over
  \<open>*options\<close>, the type \<open>StartContainer\<close> takes; they are given that type here.
\<close>

type_synonym Option = "options \<Rightarrow> options"

definition WithNewServiceAccount :: "string \<Rightarrow> string \<Rightarrow> Option" where
  "WithNewServiceAccount username password =
     (\<lambda>s. s\<lparr>ServiceAccounts := AList.update username password (ServiceAccounts s)\<rparr>)"

definition WithSuperusers :: "string list \<Rightarrow> Option" where
  "WithSuperusers superusers = (\<lambda>s. s\<lparr>Superusers := superusers\<rparr>)"

definition WithEnableSASL :: Option where
  "WithEnableSASL = (\<lambda>s. s\<lparr>KafkaAuthenticationMethod := ''sasl''\<rparr>)"

definition WithEnableKafkaAuthorization :: Option where
  "WithEnableKafkaAuthorization = (\<lambda>s. s\<lparr>KafkaEnableAuthorization := True\<rparr>)"

text \<open>
  Step 1 of \<open>StartContainer\<close>: \<open>settings := defaultOptions()\<close>, then every option is
  applied to it in the order given.
\<close>

definition gatherSettings :: "Option list \<Rightarrow> options" where
  "gatherSettings opts = foldl (\<lambda>settings opt. opt settings) defaultOptions opts"


text \<open>
  \<open>WithEnableSchemaRegistryHTTPBasicAuth\<close> has two \<open>return\<close> statements. The first
  returns a closure over a \<open>*testcontainers.GenericContainerRequest\<close> whose body is the
  unfinished selector \<open>req.\<close>, which assigns nothing; the second, which holds the
  assignment \<open>o.SchemaRegistryAuthenticationMethod = "http_basic"\<close>, comes after it and is
  never reached. The value returned is therefore the first closure (\<open>Inl\<close>), not an
  \<open>Option\<close> (\<open>Inr\<close>). The request types are declared here because the closure is over
  one of them.
\<close>

record ContainerFile =
  HostFilePath :: string
  ContainerFilePath :: string
  FileMode :: int

record ContainerRequest =
  Image :: string
  User :: string
  Files :: "ContainerFile list"
  ExposedPorts :: "string list"
  Entrypoint :: "string list"
  Cmd :: "string list"

record GenericContainerRequest =
  ContainerRequest :: ContainerRequest
  Started :: bool

type_synonym CustomizeRequestOption =
  "(GenericContainerRequest \<Rightarrow> GenericContainerRequest) + Option"

definition WithEnableSchemaRegistryHTTPBasicAuth :: CustomizeRequestOption where
  "WithEnableSchemaRegistryHTTPBasicAuth = Inl (\<lambda>req. req)"

text \<open>
  What applying the returned value does to an options value: an \<open>Option\<close> is called
  on it; a closure over the container request never sees it.
\<close>

definition applyTo :: "CustomizeRequestOption \<Rightarrow> options \<Rightarrow> options" where
  "applyTo opt settings = (case opt of Inl onRequest \<Rightarrow> settings | Inr onOptions \<Rightarrow> onOptions settings)"

section \<open>Errors and formatting\<close>

text \<open>
  A Go \<open>error\<close>: one produced by a collaborator (the operating system, the container
  runtime, the template engine, the admin client), or \<open>fmt.Errorf(format, args..., err)\<close>
  whose \<open>%w\<close> verb wraps \<open>err\<close>; the format string is kept as written in the source, with
  the arguments of its other verbs beside it.
\<close>

datatype error =
    Opaque string
  | Errorf string "string list" error

text \<open>The verb \<open>%d\<close> of \<open>fmt.Sprintf\<close> on an \<open>int\<close>: decimal digits, with a sign when negative.\<close>

fun digits :: "nat \<Rightarrow> string" where
  "digits n =
     (if n < 10 then [''0123456789'' ! n]
      else digits (n div 10) @ [''0123456789'' ! (n mod 10)])"

declare digits.simps [simp del]

definition fmt_d :: "int \<Rightarrow> string" where
  "fmt_d i = (if i < 0 then CHR ''-'' # digits (nat (- i)) else digits (nat i))"

section \<open>The collaborators\<close>

type_synonym bytes = string

text \<open>The handle of the container runtime, and the module's own \<open>Container\<close> that embeds it.\<close>

type_synonym testcontainers_Container = nat

record Container =
  Container :: testcontainers_Container

text \<open>An \<open>io.Reader\<close> as \<open>io.ReadAll\<close> sees it: a read error, or the bytes read.\<close>

datatype reader = Unreadable error | Body bytes

record ClusterHealthOverview =
  IsHealthy :: bool

text \<open>One HTTP request of the health check: no response at all, or a status and a body.\<close>

datatype http_result = ConnectionFailed | Response nat reader

record redpandaBootstrapConfigTplParams =
  Superusers :: "string list"
  KafkaAPIEnableAuthorization :: bool

record redpandaConfigTplParamsKafkaAPI =
  AdvertisedHost :: string
  AdvertisedPort :: int
  AuthenticationMethod :: string
  EnableAuthorization :: bool

record redpandaConfigTplParamsSchemaRegistry =
  AuthenticationMethod :: string

record redpandaConfigTplParams =
  KafkaAPI :: redpandaConfigTplParamsKafkaAPI
  SchemaRegistry :: redpandaConfigTplParamsSchemaRegistry

text \<open>
  Every call that leaves the module is recorded, in program order, with its arguments
  and its result; \<open>RenderNodeConfigCalled\<close> marks the call of \<open>renderNodeConfig\<close>.
\<close>

datatype event =
    CreateTempCalled "error + string"
  | WriteFileCalled string bytes int "error option"
  | GenericContainerCalled GenericContainerRequest "error + testcontainers_Container"
  | HostCalled testcontainers_Container "error + string"
  | MappedPortCalled testcontainers_Container string "error + int"
  | RenderNodeConfigCalled string int "error + bytes"
  | CopyToContainerCalled testcontainers_Container bytes string int "error option"
  | WaitUntilReadyCalled testcontainers_Container "error option"
  | NewAdminAPICalled "string list" "error option"
  | CreateUserCalled "string list" string string string "error option"

text \<open>
  The world outside the module. Each operation answers as a function of the calls made
  so far, so that the same question may be answered differently at different moments.
  \<^item> \<open>os_CreateTemp\<close>, \<open>os_WriteFile\<close>: the local file system; a file is known by its name.
  \<^item> \<open>entrypoint\<close>, \<open>nodeConfigTpl\<close>, \<open>bootstrapConfigTpl\<close>: the three embedded files
    under \<open>mounts/\<close>. A template is given as \<open>text/template\<close> sees it: a parse error, or
    the function from parameters to the executed text (or an execution error).
  \<^item> \<open>rt_GenericContainer\<close>, \<open>rt_Host\<close>, \<open>rt_MappedPort\<close>, \<open>rt_CopyToContainer\<close>: the
    container runtime. \<open>rt_MappedPort\<close> gives the \<open>Int()\<close> of the port it returns, the only
    use the module makes of it.
  \<^item> \<open>deadline\<close>, \<open>rt_Logs\<close>, \<open>rt_HTTPGet\<close>: what the readiness wait can observe,
    as a function of the time since the wait began (in nanoseconds).
  \<^item> \<open>json_Unmarshal\<close>: decoding of a body into a \<open>ClusterHealthOverview\<close>.
  \<^item> \<open>admin_NewAdminAPI\<close>, \<open>admin_CreateUser\<close>: the admin client, known by the URLs it
    is bound to.
  \<^item> \<open>range_choices\<close>: the choices Go makes when it ranges over a map, whose iteration
    order the language leaves open.
\<close>

record env =
  os_CreateTemp :: "event list \<Rightarrow> error + string"
  os_WriteFile :: "event list \<Rightarrow> string \<Rightarrow> bytes \<Rightarrow> int \<Rightarrow> error option"
  entrypoint :: bytes
  nodeConfigTpl :: "error + (redpandaConfigTplParams \<Rightarrow> error + bytes)"
  bootstrapConfigTpl :: "error + (redpandaBootstrapConfigTplParams \<Rightarrow> error + bytes)"
  rt_GenericContainer :: "event list \<Rightarrow> GenericContainerRequest \<Rightarrow> error + testcontainers_Container"
  rt_Host :: "event list \<Rightarrow> testcontainers_Container \<Rightarrow> error + string"
  rt_MappedPort :: "event list \<Rightarrow> testcontainers_Container \<Rightarrow> string \<Rightarrow> error + int"
  rt_CopyToContainer :: "event list \<Rightarrow> testcontainers_Container \<Rightarrow> bytes \<Rightarrow> string \<Rightarrow> int \<Rightarrow> error option"
  deadline :: int
  rt_Logs :: "event list \<Rightarrow> testcontainers_Container \<Rightarrow> int \<Rightarrow> string list"
  rt_HTTPGet :: "event list \<Rightarrow> testcontainers_Container \<Rightarrow> string \<Rightarrow> string \<Rightarrow> int \<Rightarrow> http_result"
  json_Unmarshal :: "bytes \<Rightarrow> error + ClusterHealthOverview"
  admin_NewAdminAPI :: "event list \<Rightarrow> string list \<Rightarrow> error option"
  admin_CreateUser :: "event list \<Rightarrow> string list \<Rightarrow> string \<Rightarrow> string \<Rightarrow> string \<Rightarrow> error option"
  range_choices :: "nat list"

text \<open>The calls, each returning its result and the record of calls extended by itself.\<close>

definition CreateTemp :: "env \<Rightarrow> event list \<Rightarrow> (error + string) \<times> event list" where
  "CreateTemp env tr = (let r = os_CreateTemp env tr in (r, tr @ [CreateTempCalled r]))"

definition WriteFile :: "env \<Rightarrow> event list \<Rightarrow> string \<Rightarrow> bytes \<Rightarrow> int \<Rightarrow> error option \<times> event list" where
  "WriteFile env tr name data perm =
     (let r = os_WriteFile env tr name data perm in (r, tr @ [WriteFileCalled name data perm r]))"

definition GenericContainer ::
  "env \<Rightarrow> event list \<Rightarrow> GenericContainerRequest \<Rightarrow> (error + testcontainers_Container) \<times> event list" where
  "GenericContainer env tr req =
     (let r = rt_GenericContainer env tr req in (r, tr @ [GenericContainerCalled req r]))"

definition Host :: "env \<Rightarrow> event list \<Rightarrow> testcontainers_Container \<Rightarrow> (error + string) \<times> event list" where
  "Host env tr c = (let r = rt_Host env tr c in (r, tr @ [HostCalled c r]))"

definition MappedPort ::
  "env \<Rightarrow> event list \<Rightarrow> testcontainers_Container \<Rightarrow> string \<Rightarrow> (error + int) \<times> event list" where
  "MappedPort env tr c port =
     (let r = rt_MappedPort env tr c port in (r, tr @ [MappedPortCalled c port r]))"

definition CopyToContainer ::
  "env \<Rightarrow> event list \<Rightarrow> testcontainers_Container \<Rightarrow> bytes \<Rightarrow> string \<Rightarrow> int \<Rightarrow> error option \<times> event list" where
  "CopyToContainer env tr c fileContent containerFilePath fileMode =
     (let r = rt_CopyToContainer env tr c fileContent containerFilePath fileMode
      in (r, tr @ [CopyToContainerCalled c fileContent containerFilePath fileMode r]))"

definition NewAdminAPI :: "env \<Rightarrow> event list \<Rightarrow> string list \<Rightarrow> (error + string list) \<times> event list" where
  "NewAdminAPI env tr urls =
     (let r = admin_NewAdminAPI env tr urls
      in (case r of Some err \<Rightarrow> Inl err | None \<Rightarrow> Inr urls, tr @ [NewAdminAPICalled urls r]))"

definition CreateUser ::
  "env \<Rightarrow> event list \<Rightarrow> string list \<Rightarrow> string \<Rightarrow> string \<Rightarrow> string \<Rightarrow> error option \<times> event list" where
  "CreateUser env tr adminCl username password mechanism =
     (let r = admin_CreateUser env tr adminCl username password mechanism
      in (r, tr @ [CreateUserCalled adminCl username password mechanism r]))"

text \<open>\<open>admin.ScramSha256\<close>, a constant of the admin client's package.\<close>

definition ScramSha256 :: string where
  "ScramSha256 = ''SCRAM-SHA-256''"

section \<open>The provisioning sequence (redpanda.go)\<close>

definition defaultKafkaAPIPort :: string where
  "defaultKafkaAPIPort = ''9092/tcp''"

definition defaultAdminAPIPort :: string where
  "defaultAdminAPIPort = ''9644/tcp''"

definition defaultSchemaRegistryPort :: string where
  "defaultSchemaRegistryPort = ''8081/tcp''"

text \<open>
  \<open>createEntrypointTmpFile\<close>: both errors are returned as they are. The permission
  \<open>0o700\<close> of the source is the number 448. The \<open>*os.File\<close> is known by its name.
\<close>

definition createEntrypointTmpFile :: "env \<Rightarrow> event list \<Rightarrow> (error + string) \<times> event list" where
  "createEntrypointTmpFile env tr0 =
     (case CreateTemp env tr0 of
        (Inl err, tr) \<Rightarrow> (Inl err, tr)
      | (Inr entrypointTmpFile, tr) \<Rightarrow>
     (case WriteFile env tr entrypointTmpFile (entrypoint env) 448 of
        (Some err, tr) \<Rightarrow> (Inl err, tr)
      | (None, tr) \<Rightarrow> (Inr entrypointTmpFile, tr)))"

definition createBootstrapConfigFile ::
  "env \<Rightarrow> options \<Rightarrow> event list \<Rightarrow> (error + string) \<times> event list" where
  "createBootstrapConfigFile env settings tr0 =
     (let bootstrapTplParams =
            \<lparr> Superusers = options.Superusers settings,
              KafkaAPIEnableAuthorization = KafkaEnableAuthorization settings \<rparr>
      in case bootstrapConfigTpl env of
        Inl err \<Rightarrow> (Inl (Errorf ''failed to parse redpanda config file template: %w'' [] err), tr0)
      | Inr tpl \<Rightarrow>
     (case tpl bootstrapTplParams of
        Inl err \<Rightarrow> (Inl (Errorf ''failed to render redpanda bootstrap config template: %w'' [] err), tr0)
      | Inr bootstrapConfig \<Rightarrow>
     (case CreateTemp env tr0 of
        (Inl err, tr) \<Rightarrow> (Inl err, tr)
      | (Inr bootstrapTmpFile, tr) \<Rightarrow>
     (case WriteFile env tr bootstrapTmpFile bootstrapConfig 448 of
        (Some err, tr) \<Rightarrow> (Inl err, tr)
      | (None, tr) \<Rightarrow> (Inr bootstrapTmpFile, tr)))))"

definition renderNodeConfig :: "env \<Rightarrow> options \<Rightarrow> string \<Rightarrow> int \<Rightarrow> error + bytes" where
  "renderNodeConfig env settings hostIP advertisedKafkaPort =
     (let tplParams =
            \<lparr> KafkaAPI =
                \<lparr> AdvertisedHost = hostIP,
                  AdvertisedPort = advertisedKafkaPort,
                  AuthenticationMethod = KafkaAuthenticationMethod settings,
                  EnableAuthorization = KafkaEnableAuthorization settings \<rparr>,
              SchemaRegistry =
                \<lparr> AuthenticationMethod = SchemaRegistryAuthenticationMethod settings \<rparr> \<rparr>
      in case nodeConfigTpl env of
        Inl err \<Rightarrow> Inl (Errorf ''failed to parse redpanda config file template: %w'' [] err)
      | Inr ncTpl \<Rightarrow>
     (case ncTpl tplParams of
        Inl err \<Rightarrow> Inl (Errorf ''failed to render redpanda node config template: %w'' [] err)
      | Inr redpandaYaml \<Rightarrow> Inr redpandaYaml))"

text \<open>The call of \<open>renderNodeConfig\<close> as \<open>StartContainer\<close> makes it, with its mark in the record.\<close>

definition renderNodeConfig_call ::
  "env \<Rightarrow> event list \<Rightarrow> options \<Rightarrow> string \<Rightarrow> int \<Rightarrow> (error + bytes) \<times> event list" where
  "renderNodeConfig_call env tr settings hostIP advertisedKafkaPort =
     (let r = renderNodeConfig env settings hostIP advertisedKafkaPort
      in (r, tr @ [RenderNodeConfigCalled hostIP advertisedKafkaPort r]))"

text \<open>Step 3 of \<open>StartContainer\<close>: the container request, with the literals of the source.\<close>

definition containerReq :: "options \<Rightarrow> string \<Rightarrow> string \<Rightarrow> ContainerRequest" where
  "containerReq settings entrypointFile bootstrapConfigFile =
     \<lparr> Image = options.Image settings,
       User = ''root:root'',
       Files =
         [ \<lparr> HostFilePath = entrypointFile,
             ContainerFilePath = ''/entrypoint-tc.sh'',
             FileMode = 700 \<rparr>,
           \<lparr> HostFilePath = bootstrapConfigFile,
             ContainerFilePath = ''/etc/redpanda/.bootstrap.yaml'',
             FileMode = 700 \<rparr> ],
       ExposedPorts = [defaultKafkaAPIPort, defaultAdminAPIPort, defaultSchemaRegistryPort],
       Entrypoint = [],
       Cmd = [''/entrypoint-tc.sh'', ''redpanda'', ''start'', ''--mode=dev-container''] \<rparr>"

subsection \<open>The readiness wait\<close>

text \<open>
  A \<open>time.Duration\<close> counts nanoseconds.
\<close>

definition Millisecond :: int where
  "Millisecond = 1000000"

record LogStrategy =
  Log :: string
  PollInterval :: int

record HTTPStrategy =
  Port :: string
  Path :: string
  ResponseMatcher :: "reader \<Rightarrow> bool"
  PollInterval :: int

datatype Strategy = LogS LogStrategy | HTTPS HTTPStrategy | MultiS "Strategy list"

text \<open>
  Modelled from the spec: the package \<open>wait\<close> of this repository (\<open>ForLog\<close>, \<open>ForHTTP\<close>,
  \<open>ForAll\<close>, their \<open>With...\<close> setters and \<open>WaitUntilReady\<close>) is not among the sources.
  The spec (4.2) describes a composite wait of independent checks, each retried on its
  own poll interval (recommended 100ms) until a deadline, all of which must succeed.
\<close>

definition ForLog :: "string \<Rightarrow> LogStrategy" where
  "ForLog l = \<lparr> Log = l, PollInterval = 100 * Millisecond \<rparr>"

definition Log_WithPollInterval :: "int \<Rightarrow> LogStrategy \<Rightarrow> LogStrategy" where
  "Log_WithPollInterval d ws = ws\<lparr> LogStrategy.PollInterval := d \<rparr>"

definition ForHTTP :: "string \<Rightarrow> HTTPStrategy" where
  "ForHTTP path =
     \<lparr> Port = [], Path = path, ResponseMatcher = (\<lambda>body. True), PollInterval = 100 * Millisecond \<rparr>"

definition WithPort :: "string \<Rightarrow> HTTPStrategy \<Rightarrow> HTTPStrategy" where
  "WithPort port ws = ws\<lparr> Port := port \<rparr>"

definition WithResponseMatcher :: "(reader \<Rightarrow> bool) \<Rightarrow> HTTPStrategy \<Rightarrow> HTTPStrategy" where
  "WithResponseMatcher matcher ws = ws\<lparr> ResponseMatcher := matcher \<rparr>"

definition HTTP_WithPollInterval :: "int \<Rightarrow> HTTPStrategy \<Rightarrow> HTTPStrategy" where
  "HTTP_WithPollInterval d ws = ws\<lparr> HTTPStrategy.PollInterval := d \<rparr>"

definition ForAll :: "Strategy list \<Rightarrow> Strategy" where
  "ForAll strategies = MultiS strategies"

text \<open>
  The response matcher that \<open>StartContainer\<close> passes to \<open>WithResponseMatcher\<close>: the closure
  of the source, with its two early \<open>return false\<close>.
\<close>

definition healthMatcher :: "env \<Rightarrow> reader \<Rightarrow> bool" where
  "healthMatcher env body =
     (case body of
        Unreadable err \<Rightarrow> False
      | Body response \<Rightarrow>
     (case json_Unmarshal env response of
        Inl err \<Rightarrow> False
      | Inr healthOverview \<Rightarrow> IsHealthy healthOverview))"

text \<open>Step 6 of \<open>StartContainer\<close>: the strategy it builds.\<close>

definition readiness :: "env \<Rightarrow> Strategy" where
  "readiness env =
     ForAll
       [ LogS (Log_WithPollInterval (100 * Millisecond) (ForLog ''Successfully started Redpanda!'')),
         HTTPS (HTTP_WithPollInterval (100 * Millisecond)
                 (WithResponseMatcher (healthMatcher env)
                   (WithPort defaultAdminAPIPort
                     (ForHTTP ''/v1/cluster/health_overview'')))) ]"

text \<open>
  Modelled from the spec: the moments at which a check with the given interval polls
  before the deadline: 0, the interval, twice the interval, and so on.
\<close>

definition poll_times :: "int \<Rightarrow> int \<Rightarrow> int list" where
  "poll_times interval dl =
     (if interval \<le> 0 then []
      else map (\<lambda>k. int k * interval) [0 ..< nat ((dl + interval - 1) div interval)])"

text \<open>
  Modelled from the spec: one attempt of the log check is ready when the literal line is
  among the lines of the container's log; one attempt of the HTTP check is ready when the
  GET of the path on the port is answered with a 2xx status and the response matcher
  accepts the body. A connection failure, another status or a body the matcher
  refuses make the attempt not ready, never an error.
\<close>

definition log_attempt ::
  "env \<Rightarrow> event list \<Rightarrow> testcontainers_Container \<Rightarrow> LogStrategy \<Rightarrow> int \<Rightarrow> bool" where
  "log_attempt env tr c ws t = (Log ws \<in> set (rt_Logs env tr c t))"

definition http_attempt ::
  "env \<Rightarrow> event list \<Rightarrow> testcontainers_Container \<Rightarrow> HTTPStrategy \<Rightarrow> int \<Rightarrow> bool" where
  "http_attempt env tr c ws t =
     (case rt_HTTPGet env tr c (Port ws) (Path ws) t of
        ConnectionFailed \<Rightarrow> False
      | Response status body \<Rightarrow> 200 \<le> status \<and> status < 300 \<and> ResponseMatcher ws body)"

text \<open>
  Modelled from the spec: a check succeeds when one of its attempts before the deadline
  is ready; a composite succeeds when every one of its checks does.
\<close>

fun satisfied :: "env \<Rightarrow> event list \<Rightarrow> testcontainers_Container \<Rightarrow> Strategy \<Rightarrow> bool" where
  "satisfied env tr c (LogS ws) =
     list_ex (log_attempt env tr c ws) (poll_times (LogStrategy.PollInterval ws) (deadline env))"
| "satisfied env tr c (HTTPS ws) =
     list_ex (http_attempt env tr c ws) (poll_times (HTTPStrategy.PollInterval ws) (deadline env))"
| "satisfied env tr c (MultiS strategies) = (\<forall>ws \<in> set strategies. satisfied env tr c ws)"

text \<open>Modelled from the spec: the checks of a strategy that never became ready, by name.\<close>

fun unsatisfied :: "env \<Rightarrow> event list \<Rightarrow> testcontainers_Container \<Rightarrow> Strategy \<Rightarrow> string list" where
  "unsatisfied env tr c (LogS ws) =
     (if satisfied env tr c (LogS ws) then [] else [''log: '' @ Log ws])"
| "unsatisfied env tr c (HTTPS ws) =
     (if satisfied env tr c (HTTPS ws) then [] else [''http: '' @ Path ws])"
| "unsatisfied env tr c (MultiS strategies) = concat (map (unsatisfied env tr c) strategies)"

text \<open>
  Modelled from the spec: \<open>WaitUntilReady\<close> returns no error when the strategy is
  satisfied, and at the deadline a failure naming the checks never satisfied.
\<close>

definition WaitUntilReady ::
  "env \<Rightarrow> event list \<Rightarrow> testcontainers_Container \<Rightarrow> Strategy \<Rightarrow> error option \<times> event list" where
  "WaitUntilReady env tr c ws =
     (let r = (if satisfied env tr c ws then None
               else Some (Opaque (''not ready before the deadline: ''
                                  @ concat (map (\<lambda>name. name @ ''; '') (unsatisfied env tr c ws)))))
      in (r, tr @ [WaitUntilReadyCalled c r]))"

subsection \<open>Service accounts\<close>

text \<open>
  The order in which \<open>range\<close> visits a map is left open by Go. Here the entry visited
  next is picked among those not yet visited by the next number of \<open>choices\<close> (and
  in stored order once the numbers run out): every order can arise, and each entry is
  visited once.
\<close>

fun range_order :: "nat list \<Rightarrow> 'a list \<Rightarrow> 'a list" where
  "range_order choices [] = []"
| "range_order [] entries = entries"
| "range_order (n # choices) entries =
     (let i = n mod length entries
      in entries ! i # range_order choices (take i entries @ drop (Suc i) entries))"

text \<open>
  The loop \<open>for username, password := range settings.ServiceAccounts\<close> of step 7, over
  the entries in the order visited: it returns at the first \<open>CreateUser\<close> that fails.
\<close>

fun createServiceAccounts ::
  "env \<Rightarrow> string list \<Rightarrow> (string \<times> string) list \<Rightarrow> event list \<Rightarrow> error option \<times> event list" where
  "createServiceAccounts env adminCl [] tr0 = (None, tr0)"
| "createServiceAccounts env adminCl ((username, password) # remaining) tr0 =
     (case CreateUser env tr0 adminCl username password ScramSha256 of
        (Some err, tr) \<Rightarrow>
          (Some (Errorf ''failed to create service account with username %q: %w'' [username] err), tr)
      | (None, tr) \<Rightarrow> createServiceAccounts env adminCl remaining tr)"

subsection \<open>StartContainer\<close>

text \<open>
  The result is the \<open>*Container\<close> or the error (never both), together with the record of
  the calls made. Each \<open>if err != nil { return nil, ... }\<close> of the source is the \<open>Inl\<close>
  branch of the step before it.
\<close>

definition StartContainer :: "env \<Rightarrow> Option list \<Rightarrow> (error + Container) \<times> event list" where
  "StartContainer env opts =
     (let settings = gatherSettings opts
      in case createEntrypointTmpFile env [] of
        (Inl err, tr) \<Rightarrow> (Inl (Errorf ''failed to create entrypoint file: %w'' [] err), tr)
      | (Inr entrypointFile, tr) \<Rightarrow>
     (case createBootstrapConfigFile env settings tr of
        (Inl err, tr) \<Rightarrow> (Inl (Errorf ''failed to create bootstrap config file: %w'' [] err), tr)
      | (Inr bootstrapConfigFile, tr) \<Rightarrow>
     (case GenericContainer env tr
             \<lparr> ContainerRequest = containerReq settings entrypointFile bootstrapConfigFile,
               Started = True \<rparr> of
        (Inl err, tr) \<Rightarrow> (Inl err, tr)
      | (Inr container, tr) \<Rightarrow>
     (case Host env tr container of
        (Inl err, tr) \<Rightarrow> (Inl (Errorf ''failed to get container host: %w'' [] err), tr)
      | (Inr hostIP, tr) \<Rightarrow>
     (case MappedPort env tr container defaultKafkaAPIPort of
        (Inl err, tr) \<Rightarrow> (Inl (Errorf ''failed to get mapped Kafka port: %w'' [] err), tr)
      | (Inr kafkaPort, tr) \<Rightarrow>
     (case renderNodeConfig_call env tr settings hostIP kafkaPort of
        (Inl err, tr) \<Rightarrow> (Inl (Errorf ''failed to render node config: %w'' [] err), tr)
      | (Inr nodeConfig, tr) \<Rightarrow>
     (case CopyToContainer env tr container nodeConfig ''/etc/redpanda/redpanda.yaml'' 700 of
        (Some err, tr) \<Rightarrow>
          (Inl (Errorf ''failed to copy redpanda.yaml into container: %w'' [] err), tr)
      | (None, tr) \<Rightarrow>
     (case WaitUntilReady env tr container (readiness env) of
        (Some err, tr) \<Rightarrow> (Inl (Errorf ''failed to wait for Redpanda readiness: %w'' [] err), tr)
      | (None, tr) \<Rightarrow>
     (if length (ServiceAccounts settings) > 0 then
        (case MappedPort env tr container defaultAdminAPIPort of
           (Inl err, tr) \<Rightarrow> (Inl (Errorf ''failed to get mapped Admin API port: %w'' [] err), tr)
         | (Inr adminAPIPort, tr) \<Rightarrow>
        (let adminAPIUrl = ''http://'' @ hostIP @ '':'' @ fmt_d adminAPIPort
         in case NewAdminAPI env tr [adminAPIUrl] of
           (Inl err, tr) \<Rightarrow> (Inl (Errorf ''failed to create new admin api client: %w'' [] err), tr)
         | (Inr adminCl, tr) \<Rightarrow>
        (case createServiceAccounts env adminCl
                (range_order (range_choices env) (ServiceAccounts settings)) tr of
           (Some err, tr) \<Rightarrow> (Inl err, tr)
         | (None, tr) \<Rightarrow> (Inr \<lparr> Container = container \<rparr>, tr))))
      else (Inr \<lparr> Container = container \<rparr>, tr))))))))))"

section \<open>The endpoint accessors\<close>

definition getMappedHostPort ::
  "env \<Rightarrow> event list \<Rightarrow> Container \<Rightarrow> string \<Rightarrow> (error + string) \<times> event list" where
  "getMappedHostPort env tr0 c port =
     (case Host env tr0 (Container c) of
        (Inl err, tr) \<Rightarrow> (Inl (Errorf ''failed to get hostIP: %w'' [] err), tr)
      | (Inr hostIP, tr) \<Rightarrow>
     (case MappedPort env tr (Container c) port of
        (Inl err, tr) \<Rightarrow> (Inl (Errorf ''failed to get mapped port: %w'' [] err), tr)
      | (Inr mappedPort, tr) \<Rightarrow> (Inr (hostIP @ '':'' @ fmt_d mappedPort), tr)))"

definition KafkaSeedBroker :: "env \<Rightarrow> event list \<Rightarrow> Container \<Rightarrow> (error + string) \<times> event list" where
  "KafkaSeedBroker env tr0 c = getMappedHostPort env tr0 c defaultKafkaAPIPort"

definition AdminAPIAddress :: "env \<Rightarrow> event list \<Rightarrow> Container \<Rightarrow> (error + string) \<times> event list" where
  "AdminAPIAddress env tr0 c =
     (case getMappedHostPort env tr0 c defaultAdminAPIPort of
        (Inl err, tr) \<Rightarrow> (Inl err, tr)
      | (Inr hostPort, tr) \<Rightarrow> (Inr (''http://'' @ hostPort), tr))"

definition SchemaRegistryAddress :: "env \<Rightarrow> event list \<Rightarrow> Container \<Rightarrow> (error + string) \<times> event list" where
  "SchemaRegistryAddress env tr0 c =
     (case getMappedHostPort env tr0 c defaultSchemaRegistryPort of
        (Inl err, tr) \<Rightarrow> (Inl err, tr)
      | (Inr hostPort, tr) \<Rightarrow> (Inr (''http://'' @ hostPort), tr))"

section \<open>A concrete world\<close>

text \<open>
  A world in which every step succeeds, used to run the definitions: temporary files
  are named after the number of calls made before, the container has handle 1 on
  \<open>localhost\<close> with port mappings 9092 to 55001, 9644 to 55002 and 8081 to 55003, the
  success line is in the log from 100ms on, and the health endpoint refuses the
  connection at first, then answers with a body that does not parse, then (from 200ms)
  reports healthy. The admin client rejects the user \<open>bob\<close>.
\<close>

definition example_MappedPort :: "string \<Rightarrow> error + int" where
  "example_MappedPort port =
     (if port = ''9092/tcp'' then Inr 55001
      else if port = ''9644/tcp'' then Inr 55002
      else if port = ''8081/tcp'' then Inr 55003
      else Inl (Opaque ''port not found''))"

definition example_HTTPGet :: "int \<Rightarrow> http_result" where
  "example_HTTPGet t =
     (if t < 100 * Millisecond then ConnectionFailed
      else if t < 200 * Millisecond then Response 200 (Body ''<html>'')
      else Response 200 (Body ''healthy''))"

definition example_Unmarshal :: "bytes \<Rightarrow> error + ClusterHealthOverview" where
  "example_Unmarshal b =
     (if b = ''healthy'' then Inr \<lparr> IsHealthy = True \<rparr>
      else if b = ''unhealthy'' then Inr \<lparr> IsHealthy = False \<rparr>
      else Inl (Opaque ''invalid character''))"

definition example_env :: env where
  "example_env =
     \<lparr> os_CreateTemp = (\<lambda>tr. Inr (''/tmp/'' @ digits (length tr))),
       os_WriteFile = (\<lambda>tr name data perm. None),
       entrypoint = ''#!/usr/bin/env bash'',
       nodeConfigTpl = Inr (\<lambda>p. Inr (AdvertisedHost (KafkaAPI p) @ '':'' @ fmt_d (AdvertisedPort (KafkaAPI p)))),
       bootstrapConfigTpl = Inr (\<lambda>p. Inr (concat (redpandaBootstrapConfigTplParams.Superusers p))),
       rt_GenericContainer = (\<lambda>tr req. Inr 1),
       rt_Host = (\<lambda>tr c. Inr ''localhost''),
       rt_MappedPort = (\<lambda>tr c port. example_MappedPort port),
       rt_CopyToContainer = (\<lambda>tr c fileContent containerFilePath fileMode. None),
       deadline = 300 * Millisecond,
       rt_Logs = (\<lambda>tr c t. if t < 100 * Millisecond then [] else [''Successfully started Redpanda!'']),
       rt_HTTPGet = (\<lambda>tr c port path t. example_HTTPGet t),
       json_Unmarshal = example_Unmarshal,
       admin_NewAdminAPI = (\<lambda>tr urls. None),
       admin_CreateUser =
         (\<lambda>tr adminCl username password mechanism.
            if username = ''bob'' then Some (Opaque ''user rejected'') else None),
       range_choices = [] \<rparr>"

text \<open>
  Three service accounts, and the calls of a run in this world: those up to the
  rendering of the node configuration, and those up to the end of the readiness wait.
\<close>

definition three_accounts :: "Option list" where
  "three_accounts =
     [WithNewServiceAccount ''alice'' ''a'', WithNewServiceAccount ''bob'' ''b'',
      WithNewServiceAccount ''carol'' ''c'']"

definition example_rendered :: "Option list \<Rightarrow> event list" where
  "example_rendered opts =
     [CreateTempCalled (Inr ''/tmp/0''),
      WriteFileCalled ''/tmp/0'' ''#!/usr/bin/env bash'' 448 None,
      CreateTempCalled (Inr ''/tmp/2''),
      WriteFileCalled ''/tmp/2'' (concat (options.Superusers (gatherSettings opts))) 448 None,
      GenericContainerCalled
        \<lparr> ContainerRequest = containerReq (gatherSettings opts) ''/tmp/0'' ''/tmp/2'',
          Started = True \<rparr> (Inr 1),
      HostCalled 1 (Inr ''localhost''),
      MappedPortCalled 1 ''9092/tcp'' (Inr 55001),
      RenderNodeConfigCalled ''localhost'' 55001 (Inr ''localhost:55001'')]"

definition example_ready :: "Option list \<Rightarrow> event list" where
  "example_ready opts =
     example_rendered opts
     @ [CopyToContainerCalled 1 ''localhost:55001'' ''/etc/redpanda/redpanda.yaml'' 700 None,
        WaitUntilReadyCalled 1 None]"

text \<open>The same world with a container runtime that cannot be reached.\<close>

definition unreachable_env :: env where
  "unreachable_env =
     example_env\<lparr> rt_GenericContainer := (\<lambda>tr req. Inl (Opaque ''Cannot connect to the Docker daemon'')) \<rparr>"

text \<open>
  Three more worlds: one whose container is not running, so that its host cannot be
  resolved; one whose ports are not mapped; and one whose mapping of a port changes once
  the port has been looked up.
\<close>

definition stopped_env :: env where
  "stopped_env = example_env\<lparr> rt_Host := (\<lambda>tr c. Inl (Opaque ''container is not running'')) \<rparr>"

definition unmapped_env :: env where
  "unmapped_env = example_env\<lparr> rt_MappedPort := (\<lambda>tr c port. Inl (Opaque ''port not found'')) \<rparr>"

definition moving_env :: env where
  "moving_env =
     example_env\<lparr> rt_MappedPort := (\<lambda>tr c port. if length tr < 2 then Inr 55001 else Inr 60001) \<rparr>"

text \<open>A world whose log shows the success line while its health endpoint always answers 500.\<close>

definition log_only_env :: env where
  "log_only_env =
     example_env\<lparr> rt_HTTPGet := (\<lambda>tr c port path t. Response 500 (Body ''healthy'')) \<rparr>"

section \<open>Notions used in the proofs\<close>

text \<open>The calls of the local file system.\<close>

fun is_local :: "event \<Rightarrow> bool" where
  "is_local (CreateTempCalled r) = True"
| "is_local (WriteFileCalled name data perm r) = True"
| "is_local ev = False"

text \<open>The two events that bring the node configuration into being: rendering it and copying it.\<close>

fun applies_node_config :: "event \<Rightarrow> bool" where
  "applies_node_config (RenderNodeConfigCalled hostIP port r) = True"
| "applies_node_config (CopyToContainerCalled c fileContent containerFilePath fileMode r) = True"
| "applies_node_config ev = False"

text \<open>The calls of \<open>CreateUser\<close>, those that failed among them, and a call that succeeded.\<close>

fun is_CreateUser :: "event \<Rightarrow> bool" where
  "is_CreateUser (CreateUserCalled adminCl username password mechanism r) = True"
| "is_CreateUser ev = False"

fun is_failed_CreateUser :: "event \<Rightarrow> bool" where
  "is_failed_CreateUser (CreateUserCalled adminCl username password mechanism (Some err)) = True"
| "is_failed_CreateUser ev = False"

definition account_created :: "string list \<Rightarrow> string \<times> string \<Rightarrow> event" where
  "account_created adminCl account =
     CreateUserCalled adminCl (fst account) (snd account) ScramSha256 None"

text \<open>
  The calls of step 7: the lookup of the admin port, the construction of the admin
  client, the creation of a user.
\<close>

fun is_admin :: "event \<Rightarrow> bool" where
  "is_admin (MappedPortCalled c port r) = (port = defaultAdminAPIPort)"
| "is_admin (NewAdminAPICalled urls r) = True"
| "is_admin (CreateUserCalled adminCl username password mechanism r) = True"
| "is_admin ev = False"

text \<open>The format strings of the \<open>fmt.Errorf\<close> calls of \<open>StartContainer\<close>, one for each stage that wraps.\<close>

definition stage_formats :: "string list" where
  "stage_formats =
     [''failed to create entrypoint file: %w'',
      ''failed to create bootstrap config file: %w'',
      ''failed to get container host: %w'',
      ''failed to get mapped Kafka port: %w'',
      ''failed to render node config: %w'',
      ''failed to copy redpanda.yaml into container: %w'',
      ''failed to wait for Redpanda readiness: %w'',
      ''failed to get mapped Admin API port: %w'',
      ''failed to create new admin api client: %w'',
      ''failed to create service account with username %q: %w'']"

text \<open>
  The permission written \<open>0o700\<close> in Go (read, write and execute for the owner only), as
  a number; the owner's execute permission is its bit 6 (\<open>0o100\<close>).
\<close>

definition octal_700 :: int where
  "octal_700 = 7 * 8 ^ 2"

definition owner_may_execute :: "int \<Rightarrow> bool" where
  "owner_may_execute mode = bit mode 6"

section \<open>The paths through StartContainer\<close>

lemma createEntrypointTmpFile_trace:
  assumes "createEntrypointTmpFile env tr0 = (r, tr)"
  shows "\<exists>evs. tr = tr0 @ evs \<and> list_all is_local evs"
  using assms
  by (auto simp: createEntrypointTmpFile_def CreateTemp_def WriteFile_def Let_def
      split: sum.splits option.splits)

lemma createBootstrapConfigFile_trace:
  assumes "createBootstrapConfigFile env settings tr0 = (r, tr)"
  shows "\<exists>evs. tr = tr0 @ evs \<and> list_all is_local evs"
  using assms
  by (auto simp: createBootstrapConfigFile_def CreateTemp_def WriteFile_def Let_def
      split: sum.splits option.splits)

lemma createServiceAccounts_shape:
  assumes "createServiceAccounts env adminCl accounts tr0 = (r, tr)"
  shows "(r = None \<and> tr = tr0 @ map (account_created adminCl) accounts)
       \<or> (\<exists>done username password remaining err.
            accounts = done @ (username, password) # remaining
          \<and> r = Some (Errorf ''failed to create service account with username %q: %w'' [username] err)
          \<and> tr = tr0 @ map (account_created adminCl) done
                 @ [CreateUserCalled adminCl username password ScramSha256 (Some err)])"
  using assms
proof (induction accounts arbitrary: tr0)
  case Nil
  then show ?case by simp
next
  case (Cons a accounts)
  obtain u p where a: "a = (u, p)" by (cases a)
  show ?case
  proof (cases "admin_CreateUser env tr0 adminCl u p ScramSha256")
    case None
    with Cons.prems a
    have "createServiceAccounts env adminCl accounts
            (tr0 @ [CreateUserCalled adminCl u p ScramSha256 None]) = (r, tr)"
      by (simp add: CreateUser_def Let_def)
    from Cons.IH [OF this] show ?thesis
    proof
      assume "r = None \<and> tr = (tr0 @ [CreateUserCalled adminCl u p ScramSha256 None]) @ map (account_created adminCl) accounts"
      then show ?thesis by (simp add: a account_created_def)
    next
      assume "\<exists>done username password remaining err.
            accounts = done @ (username, password) # remaining
          \<and> r = Some (Errorf ''failed to create service account with username %q: %w'' [username] err)
          \<and> tr = (tr0 @ [CreateUserCalled adminCl u p ScramSha256 None]) @ map (account_created adminCl) done
                 @ [CreateUserCalled adminCl username password ScramSha256 (Some err)]"
      then obtain dn username password remaining err where
        *: "accounts = dn @ (username, password) # remaining"
           "r = Some (Errorf ''failed to create service account with username %q: %w'' [username] err)"
           "tr = (tr0 @ [CreateUserCalled adminCl u p ScramSha256 None]) @ map (account_created adminCl) dn
                 @ [CreateUserCalled adminCl username password ScramSha256 (Some err)]"
        by blast
      have "a # accounts = ((u, p) # dn) @ (username, password) # remaining"
        using * a by simp
      moreover have "tr = tr0 @ map (account_created adminCl) ((u, p) # dn)
                 @ [CreateUserCalled adminCl username password ScramSha256 (Some err)]"
        using * by (simp add: account_created_def)
      ultimately show ?thesis using *(2) by blast
    qed
  next
    case (Some e)
    with Cons.prems a
    have "r = Some (Errorf ''failed to create service account with username %q: %w'' [u] e)"
         "tr = tr0 @ map (account_created adminCl) [] @ [CreateUserCalled adminCl u p ScramSha256 (Some e)]"
      by (auto simp: CreateUser_def Let_def)
    moreover have "a # accounts = [] @ (u, p) # accounts" using a by simp
    ultimately show ?thesis by blast
  qed
qed

lemma StartContainer_paths:
  assumes run: "StartContainer env opts = (res, tr)"
  obtains
    (entrypoint_failed) err where
      "res = Inl (Errorf ''failed to create entrypoint file: %w'' [] err)"
      "list_all is_local tr"
  | (bootstrap_failed) err where
      "res = Inl (Errorf ''failed to create bootstrap config file: %w'' [] err)"
      "list_all is_local tr"
  | (create_failed) files entrypointFile bootstrapConfigFile req err where
      "list_all is_local files"
      "req = \<lparr> ContainerRequest = containerReq (gatherSettings opts) entrypointFile bootstrapConfigFile,
              Started = True \<rparr>"
      "res = Inl err"
      "tr = files @ [GenericContainerCalled req (Inl err)]"
  | (host_failed) files entrypointFile bootstrapConfigFile req c err where
      "list_all is_local files"
      "req = \<lparr> ContainerRequest = containerReq (gatherSettings opts) entrypointFile bootstrapConfigFile,
              Started = True \<rparr>"
      "res = Inl (Errorf ''failed to get container host: %w'' [] err)"
      "tr = files @ [GenericContainerCalled req (Inr c),
        HostCalled c (Inl err)]"
  | (port_failed) files entrypointFile bootstrapConfigFile req c hostIP err where
      "list_all is_local files"
      "req = \<lparr> ContainerRequest = containerReq (gatherSettings opts) entrypointFile bootstrapConfigFile,
              Started = True \<rparr>"
      "res = Inl (Errorf ''failed to get mapped Kafka port: %w'' [] err)"
      "tr = files @ [GenericContainerCalled req (Inr c),
        HostCalled c (Inr hostIP),
        MappedPortCalled c defaultKafkaAPIPort (Inl err)]"
  | (render_failed) files entrypointFile bootstrapConfigFile req c hostIP kafkaPort err where
      "list_all is_local files"
      "req = \<lparr> ContainerRequest = containerReq (gatherSettings opts) entrypointFile bootstrapConfigFile,
              Started = True \<rparr>"
      "res = Inl (Errorf ''failed to render node config: %w'' [] err)"
      "renderNodeConfig env (gatherSettings opts) hostIP kafkaPort = Inl err"
      "tr = files @ [GenericContainerCalled req (Inr c),
        HostCalled c (Inr hostIP),
        MappedPortCalled c defaultKafkaAPIPort (Inr kafkaPort),
        RenderNodeConfigCalled hostIP kafkaPort (Inl err)]"
  | (copy_failed) files entrypointFile bootstrapConfigFile req c hostIP kafkaPort nodeConfig err where
      "list_all is_local files"
      "req = \<lparr> ContainerRequest = containerReq (gatherSettings opts) entrypointFile bootstrapConfigFile,
              Started = True \<rparr>"
      "renderNodeConfig env (gatherSettings opts) hostIP kafkaPort = Inr nodeConfig"
      "res = Inl (Errorf ''failed to copy redpanda.yaml into container: %w'' [] err)"
      "tr = files @ [GenericContainerCalled req (Inr c),
        HostCalled c (Inr hostIP),
        MappedPortCalled c defaultKafkaAPIPort (Inr kafkaPort),
        RenderNodeConfigCalled hostIP kafkaPort (Inr nodeConfig),
        CopyToContainerCalled c nodeConfig ''/etc/redpanda/redpanda.yaml'' 700 (Some err)]"
  | (wait_failed) files entrypointFile bootstrapConfigFile req c hostIP kafkaPort nodeConfig err where
      "list_all is_local files"
      "req = \<lparr> ContainerRequest = containerReq (gatherSettings opts) entrypointFile bootstrapConfigFile,
              Started = True \<rparr>"
      "renderNodeConfig env (gatherSettings opts) hostIP kafkaPort = Inr nodeConfig"
      "res = Inl (Errorf ''failed to wait for Redpanda readiness: %w'' [] err)"
      "\<not> satisfied env (files @ [GenericContainerCalled req (Inr c),
        HostCalled c (Inr hostIP),
        MappedPortCalled c defaultKafkaAPIPort (Inr kafkaPort),
        RenderNodeConfigCalled hostIP kafkaPort (Inr nodeConfig),
        CopyToContainerCalled c nodeConfig ''/etc/redpanda/redpanda.yaml'' 700 None]) c (readiness env)"
      "tr = files @ [GenericContainerCalled req (Inr c),
        HostCalled c (Inr hostIP),
        MappedPortCalled c defaultKafkaAPIPort (Inr kafkaPort),
        RenderNodeConfigCalled hostIP kafkaPort (Inr nodeConfig),
        CopyToContainerCalled c nodeConfig ''/etc/redpanda/redpanda.yaml'' 700 None,
        WaitUntilReadyCalled c (Some err)]"
  | (no_accounts) files entrypointFile bootstrapConfigFile req c hostIP kafkaPort nodeConfig where
      "list_all is_local files"
      "req = \<lparr> ContainerRequest = containerReq (gatherSettings opts) entrypointFile bootstrapConfigFile,
              Started = True \<rparr>"
      "renderNodeConfig env (gatherSettings opts) hostIP kafkaPort = Inr nodeConfig"
      "satisfied env (files @ [GenericContainerCalled req (Inr c),
        HostCalled c (Inr hostIP),
        MappedPortCalled c defaultKafkaAPIPort (Inr kafkaPort),
        RenderNodeConfigCalled hostIP kafkaPort (Inr nodeConfig),
        CopyToContainerCalled c nodeConfig ''/etc/redpanda/redpanda.yaml'' 700 None]) c (readiness env)"
      "ServiceAccounts (gatherSettings opts) = []"
      "res = Inr \<lparr> Container = c \<rparr>"
      "tr = files @ [GenericContainerCalled req (Inr c),
        HostCalled c (Inr hostIP),
        MappedPortCalled c defaultKafkaAPIPort (Inr kafkaPort),
        RenderNodeConfigCalled hostIP kafkaPort (Inr nodeConfig),
        CopyToContainerCalled c nodeConfig ''/etc/redpanda/redpanda.yaml'' 700 None,
        WaitUntilReadyCalled c None]"
  | (admin_port_failed) files entrypointFile bootstrapConfigFile req c hostIP kafkaPort nodeConfig err where
      "list_all is_local files"
      "req = \<lparr> ContainerRequest = containerReq (gatherSettings opts) entrypointFile bootstrapConfigFile,
              Started = True \<rparr>"
      "renderNodeConfig env (gatherSettings opts) hostIP kafkaPort = Inr nodeConfig"
      "satisfied env (files @ [GenericContainerCalled req (Inr c),
        HostCalled c (Inr hostIP),
        MappedPortCalled c defaultKafkaAPIPort (Inr kafkaPort),
        RenderNodeConfigCalled hostIP kafkaPort (Inr nodeConfig),
        CopyToContainerCalled c nodeConfig ''/etc/redpanda/redpanda.yaml'' 700 None]) c (readiness env)"
      "ServiceAccounts (gatherSettings opts) \<noteq> []"
      "res = Inl (Errorf ''failed to get mapped Admin API port: %w'' [] err)"
      "tr = files @ [GenericContainerCalled req (Inr c),
        HostCalled c (Inr hostIP),
        MappedPortCalled c defaultKafkaAPIPort (Inr kafkaPort),
        RenderNodeConfigCalled hostIP kafkaPort (Inr nodeConfig),
        CopyToContainerCalled c nodeConfig ''/etc/redpanda/redpanda.yaml'' 700 None,
        WaitUntilReadyCalled c None,
        MappedPortCalled c defaultAdminAPIPort (Inl err)]"
  | (admin_client_failed) files entrypointFile bootstrapConfigFile req c hostIP kafkaPort nodeConfig adminAPIPort err where
      "list_all is_local files"
      "req = \<lparr> ContainerRequest = containerReq (gatherSettings opts) entrypointFile bootstrapConfigFile,
              Started = True \<rparr>"
      "renderNodeConfig env (gatherSettings opts) hostIP kafkaPort = Inr nodeConfig"
      "satisfied env (files @ [GenericContainerCalled req (Inr c),
        HostCalled c (Inr hostIP),
        MappedPortCalled c defaultKafkaAPIPort (Inr kafkaPort),
        RenderNodeConfigCalled hostIP kafkaPort (Inr nodeConfig),
        CopyToContainerCalled c nodeConfig ''/etc/redpanda/redpanda.yaml'' 700 None]) c (readiness env)"
      "ServiceAccounts (gatherSettings opts) \<noteq> []"
      "res = Inl (Errorf ''failed to create new admin api client: %w'' [] err)"
      "tr = files @ [GenericContainerCalled req (Inr c),
        HostCalled c (Inr hostIP),
        MappedPortCalled c defaultKafkaAPIPort (Inr kafkaPort),
        RenderNodeConfigCalled hostIP kafkaPort (Inr nodeConfig),
        CopyToContainerCalled c nodeConfig ''/etc/redpanda/redpanda.yaml'' 700 None,
        WaitUntilReadyCalled c None,
        MappedPortCalled c defaultAdminAPIPort (Inr adminAPIPort),
        NewAdminAPICalled [''http://'' @ hostIP @ '':'' @ fmt_d adminAPIPort] (Some err)]"
  | (accounts_created) files entrypointFile bootstrapConfigFile req c hostIP kafkaPort nodeConfig adminAPIPort where
      "list_all is_local files"
      "req = \<lparr> ContainerRequest = containerReq (gatherSettings opts) entrypointFile bootstrapConfigFile,
              Started = True \<rparr>"
      "renderNodeConfig env (gatherSettings opts) hostIP kafkaPort = Inr nodeConfig"
      "satisfied env (files @ [GenericContainerCalled req (Inr c),
        HostCalled c (Inr hostIP),
        MappedPortCalled c defaultKafkaAPIPort (Inr kafkaPort),
        RenderNodeConfigCalled hostIP kafkaPort (Inr nodeConfig),
        CopyToContainerCalled c nodeConfig ''/etc/redpanda/redpanda.yaml'' 700 None]) c (readiness env)"
      "ServiceAccounts (gatherSettings opts) \<noteq> []"
      "res = Inr \<lparr> Container = c \<rparr>"
      "tr = files @ [GenericContainerCalled req (Inr c),
        HostCalled c (Inr hostIP),
        MappedPortCalled c defaultKafkaAPIPort (Inr kafkaPort),
        RenderNodeConfigCalled hostIP kafkaPort (Inr nodeConfig),
        CopyToContainerCalled c nodeConfig ''/etc/redpanda/redpanda.yaml'' 700 None,
        WaitUntilReadyCalled c None,
        MappedPortCalled c defaultAdminAPIPort (Inr adminAPIPort),
        NewAdminAPICalled [''http://'' @ hostIP @ '':'' @ fmt_d adminAPIPort] None]
        @ map (account_created [''http://'' @ hostIP @ '':'' @ fmt_d adminAPIPort]) (range_order (range_choices env) (ServiceAccounts (gatherSettings opts)))"
  | (account_failed) files entrypointFile bootstrapConfigFile req c hostIP kafkaPort nodeConfig adminAPIPort created username password remaining err where
      "list_all is_local files"
      "req = \<lparr> ContainerRequest = containerReq (gatherSettings opts) entrypointFile bootstrapConfigFile,
              Started = True \<rparr>"
      "renderNodeConfig env (gatherSettings opts) hostIP kafkaPort = Inr nodeConfig"
      "satisfied env (files @ [GenericContainerCalled req (Inr c),
        HostCalled c (Inr hostIP),
        MappedPortCalled c defaultKafkaAPIPort (Inr kafkaPort),
        RenderNodeConfigCalled hostIP kafkaPort (Inr nodeConfig),
        CopyToContainerCalled c nodeConfig ''/etc/redpanda/redpanda.yaml'' 700 None]) c (readiness env)"
      "ServiceAccounts (gatherSettings opts) \<noteq> []"
      "range_order (range_choices env) (ServiceAccounts (gatherSettings opts)) = created @ (username, password) # remaining"
      "res = Inl (Errorf ''failed to create service account with username %q: %w'' [username] err)"
      "tr = files @ [GenericContainerCalled req (Inr c),
        HostCalled c (Inr hostIP),
        MappedPortCalled c defaultKafkaAPIPort (Inr kafkaPort),
        RenderNodeConfigCalled hostIP kafkaPort (Inr nodeConfig),
        CopyToContainerCalled c nodeConfig ''/etc/redpanda/redpanda.yaml'' 700 None,
        WaitUntilReadyCalled c None,
        MappedPortCalled c defaultAdminAPIPort (Inr adminAPIPort),
        NewAdminAPICalled [''http://'' @ hostIP @ '':'' @ fmt_d adminAPIPort] None]
        @ map (account_created [''http://'' @ hostIP @ '':'' @ fmt_d adminAPIPort]) created
        @ [CreateUserCalled [''http://'' @ hostIP @ '':'' @ fmt_d adminAPIPort] username password ScramSha256 (Some err)]"
proof -
  let ?settings = "gatherSettings opts"
  let ?order = "range_order (range_choices env) (ServiceAccounts ?settings)"
  obtain r1 t1 where s1: "createEntrypointTmpFile env [] = (r1, t1)"
    by force
  from createEntrypointTmpFile_trace [OF s1] have l1: "list_all is_local t1"
    by auto
  show thesis
  proof (cases r1)
    case (Inl err)
    with s1 run have "res = Inl (Errorf ''failed to create entrypoint file: %w'' [] err)" "tr = t1"
      by (auto simp: StartContainer_def Let_def)
    with l1 show thesis by (simp add: entrypoint_failed)
  next
    case ef: (Inr entrypointFile)
    obtain r2 t2 where s2: "createBootstrapConfigFile env ?settings t1 = (r2, t2)"
      by force
    from createBootstrapConfigFile_trace [OF s2] l1 have l2: "list_all is_local t2"
      by auto
    show thesis
    proof (cases r2)
      case (Inl err)
      with s1 ef s2 run
      have "res = Inl (Errorf ''failed to create bootstrap config file: %w'' [] err)" "tr = t2"
        by (auto simp: StartContainer_def Let_def)
      with l2 show thesis by (simp add: bootstrap_failed)
    next
      case bf: (Inr bootstrapConfigFile)
      define req where "req = \<lparr> ContainerRequest = containerReq ?settings entrypointFile bootstrapConfigFile,
              Started = True \<rparr>"
      note pre2 = s1 ef s2 bf req_def [symmetric]
      show thesis
      proof (cases "rt_GenericContainer env t2 req")
        case (Inl err)
        with pre2 run have res: "res = Inl err"
          and tr: "tr = t2 @ [GenericContainerCalled req (Inl err)]"
          by (auto simp: StartContainer_def Let_def GenericContainer_def)
        show thesis by (rule create_failed [OF l2 req_def res tr])
      next
        case gc: (Inr c)
        define t3 where "t3 = t2 @ [GenericContainerCalled req (Inr c)]"
        have s3: "GenericContainer env t2 req = (Inr c, t3)"
          by (simp add: GenericContainer_def Let_def gc t3_def)
        show thesis
        proof (cases "rt_Host env t3 c")
          case (Inl err)
          with pre2 s3 run
          have res: "res = Inl (Errorf ''failed to get container host: %w'' [] err)"
            and "tr = t3 @ [HostCalled c (Inl err)]"
            by (auto simp: StartContainer_def Let_def Host_def)
          then have tr: "tr = t2 @ [GenericContainerCalled req (Inr c),
                HostCalled c (Inl err)]"
            by (simp add: t3_def)
          show thesis by (rule host_failed [OF l2 req_def res tr])
        next
          case h: (Inr hostIP)
          define t4 where "t4 = t3 @ [HostCalled c (Inr hostIP)]"
          have s4: "Host env t3 c = (Inr hostIP, t4)"
            by (simp add: Host_def Let_def h t4_def)
          show thesis
          proof (cases "rt_MappedPort env t4 c defaultKafkaAPIPort")
            case (Inl err)
            with pre2 s3 s4 run
            have res: "res = Inl (Errorf ''failed to get mapped Kafka port: %w'' [] err)"
              and "tr = t4 @ [MappedPortCalled c defaultKafkaAPIPort (Inl err)]"
              by (auto simp: StartContainer_def Let_def MappedPort_def)
            then have tr: "tr = t2 @ [GenericContainerCalled req (Inr c),
                HostCalled c (Inr hostIP),
                MappedPortCalled c defaultKafkaAPIPort (Inl err)]"
              by (simp add: t3_def t4_def)
            show thesis by (rule port_failed [OF l2 req_def res tr])
          next
            case kp: (Inr kafkaPort)
            define t5 where "t5 = t4 @ [MappedPortCalled c defaultKafkaAPIPort (Inr kafkaPort)]"
            have s5: "MappedPort env t4 c defaultKafkaAPIPort = (Inr kafkaPort, t5)"
              by (simp add: MappedPort_def Let_def kp t5_def)
            show thesis
            proof (cases "renderNodeConfig env ?settings hostIP kafkaPort")
              case rf: (Inl err)
              with pre2 s3 s4 s5 run
              have res: "res = Inl (Errorf ''failed to render node config: %w'' [] err)"
                and "tr = t5 @ [RenderNodeConfigCalled hostIP kafkaPort (Inl err)]"
                by (auto simp: StartContainer_def Let_def renderNodeConfig_call_def)
              then have tr: "tr = t2 @ [GenericContainerCalled req (Inr c),
                HostCalled c (Inr hostIP),
                MappedPortCalled c defaultKafkaAPIPort (Inr kafkaPort),
                RenderNodeConfigCalled hostIP kafkaPort (Inl err)]"
                by (simp add: t3_def t4_def t5_def)
              show thesis by (rule render_failed [OF l2 req_def res rf tr])
            next
              case nc: (Inr nodeConfig)
              define t6 where "t6 = t5 @ [RenderNodeConfigCalled hostIP kafkaPort (Inr nodeConfig)]"
              have s6: "renderNodeConfig_call env t5 ?settings hostIP kafkaPort = (Inr nodeConfig, t6)"
                by (simp add: renderNodeConfig_call_def Let_def nc t6_def)
              show thesis
              proof (cases "rt_CopyToContainer env t6 c nodeConfig ''/etc/redpanda/redpanda.yaml'' 700")
                case (Some err)
                with pre2 s3 s4 s5 s6 run
                have res: "res = Inl (Errorf ''failed to copy redpanda.yaml into container: %w'' [] err)"
                  and "tr = t6 @ [CopyToContainerCalled c nodeConfig ''/etc/redpanda/redpanda.yaml'' 700 (Some err)]"
                  by (auto simp: StartContainer_def Let_def CopyToContainer_def)
                then have tr: "tr = t2 @ [GenericContainerCalled req (Inr c),
                HostCalled c (Inr hostIP),
                MappedPortCalled c defaultKafkaAPIPort (Inr kafkaPort),
                RenderNodeConfigCalled hostIP kafkaPort (Inr nodeConfig),
                CopyToContainerCalled c nodeConfig ''/etc/redpanda/redpanda.yaml'' 700 (Some err)]"
                  by (simp add: t3_def t4_def t5_def t6_def)
                show thesis by (rule copy_failed [OF l2 req_def nc res tr])
              next
                case cp: None
                define t7 where
                  "t7 = t6 @ [CopyToContainerCalled c nodeConfig ''/etc/redpanda/redpanda.yaml'' 700 None]"
                have s7: "CopyToContainer env t6 c nodeConfig ''/etc/redpanda/redpanda.yaml'' 700 = (None, t7)"
                  by (simp add: CopyToContainer_def Let_def cp t7_def)
                have t7: "t7 = t2 @ [GenericContainerCalled req (Inr c),
                HostCalled c (Inr hostIP),
                MappedPortCalled c defaultKafkaAPIPort (Inr kafkaPort),
                RenderNodeConfigCalled hostIP kafkaPort (Inr nodeConfig),
                CopyToContainerCalled c nodeConfig ''/etc/redpanda/redpanda.yaml'' 700 None]"
                  by (simp add: t3_def t4_def t5_def t6_def t7_def)
                show thesis
                proof (cases "satisfied env t7 c (readiness env)")
                  case False
                  with pre2 s3 s4 s5 s6 s7 run
                  have res: "res = Inl (Errorf ''failed to wait for Redpanda readiness: %w'' []
                                (Opaque (''not ready before the deadline: ''
                                  @ concat (map (\<lambda>name. name @ ''; '') (unsatisfied env t7 c (readiness env))))))"
                    and "tr = t7 @ [WaitUntilReadyCalled c
                                (Some (Opaque (''not ready before the deadline: ''
                                  @ concat (map (\<lambda>name. name @ ''; '') (unsatisfied env t7 c (readiness env))))))]"
                    by (auto simp: StartContainer_def Let_def WaitUntilReady_def)
                  then have tr: "tr = t2 @ [GenericContainerCalled req (Inr c),
                HostCalled c (Inr hostIP),
                MappedPortCalled c defaultKafkaAPIPort (Inr kafkaPort),
                RenderNodeConfigCalled hostIP kafkaPort (Inr nodeConfig),
                CopyToContainerCalled c nodeConfig ''/etc/redpanda/redpanda.yaml'' 700 None,
                WaitUntilReadyCalled c
                                (Some (Opaque (''not ready before the deadline: ''
                                  @ concat (map (\<lambda>name. name @ ''; '') (unsatisfied env t7 c (readiness env))))))]"
                    by (simp add: t7)
                  from False have unsat: "\<not> satisfied env (t2 @ [GenericContainerCalled req (Inr c),
                HostCalled c (Inr hostIP),
                MappedPortCalled c defaultKafkaAPIPort (Inr kafkaPort),
                RenderNodeConfigCalled hostIP kafkaPort (Inr nodeConfig),
                CopyToContainerCalled c nodeConfig ''/etc/redpanda/redpanda.yaml'' 700 None]) c (readiness env)"
                    by (simp add: t7)
                  show thesis by (rule wait_failed [OF l2 req_def nc res unsat tr])
                next
                  case True
                  then have sat: "satisfied env (t2 @ [GenericContainerCalled req (Inr c),
                HostCalled c (Inr hostIP),
                MappedPortCalled c defaultKafkaAPIPort (Inr kafkaPort),
                RenderNodeConfigCalled hostIP kafkaPort (Inr nodeConfig),
                CopyToContainerCalled c nodeConfig ''/etc/redpanda/redpanda.yaml'' 700 None]) c (readiness env)"
                    by (simp add: t7)
                  define t8 where "t8 = t7 @ [WaitUntilReadyCalled c None]"
                  have s8: "WaitUntilReady env t7 c (readiness env) = (None, t8)"
                    by (simp add: WaitUntilReady_def Let_def True t8_def)
                  show thesis
                  proof (cases "ServiceAccounts ?settings = []")
                    case emp: True
                    with pre2 s3 s4 s5 s6 s7 s8 run
                    have res: "res = Inr \<lparr> Container = c \<rparr>" and "tr = t8"
                      by (auto simp: StartContainer_def Let_def)
                    then have tr: "tr = t2 @ [GenericContainerCalled req (Inr c),
                HostCalled c (Inr hostIP),
                MappedPortCalled c defaultKafkaAPIPort (Inr kafkaPort),
                RenderNodeConfigCalled hostIP kafkaPort (Inr nodeConfig),
                CopyToContainerCalled c nodeConfig ''/etc/redpanda/redpanda.yaml'' 700 None,
                WaitUntilReadyCalled c None]"
                      by (simp add: t7 t8_def)
                    show thesis by (rule no_accounts [OF l2 req_def nc sat emp res tr])
                  next
                    case ne: False
                    show thesis
                    proof (cases "rt_MappedPort env t8 c defaultAdminAPIPort")
                      case (Inl err)
                      with pre2 s3 s4 s5 s6 s7 s8 ne run
                      have res: "res = Inl (Errorf ''failed to get mapped Admin API port: %w'' [] err)"
                        and "tr = t8 @ [MappedPortCalled c defaultAdminAPIPort (Inl err)]"
                        by (auto simp: StartContainer_def Let_def MappedPort_def)
                      then have tr: "tr = t2 @ [GenericContainerCalled req (Inr c),
                HostCalled c (Inr hostIP),
                MappedPortCalled c defaultKafkaAPIPort (Inr kafkaPort),
                RenderNodeConfigCalled hostIP kafkaPort (Inr nodeConfig),
                CopyToContainerCalled c nodeConfig ''/etc/redpanda/redpanda.yaml'' 700 None,
                WaitUntilReadyCalled c None,
                MappedPortCalled c defaultAdminAPIPort (Inl err)]"
                        by (simp add: t7 t8_def)
                      show thesis by (rule admin_port_failed [OF l2 req_def nc sat ne res tr])
                    next
                      case ap: (Inr adminAPIPort)
                      define t9 where "t9 = t8 @ [MappedPortCalled c defaultAdminAPIPort (Inr adminAPIPort)]"
                      have s9: "MappedPort env t8 c defaultAdminAPIPort = (Inr adminAPIPort, t9)"
                        by (simp add: MappedPort_def Let_def ap t9_def)
                      let ?url = "''http://'' @ hostIP @ '':'' @ fmt_d adminAPIPort"
                      show thesis
                      proof (cases "admin_NewAdminAPI env t9 [?url]")
                        case (Some err)
                        with pre2 s3 s4 s5 s6 s7 s8 s9 ne run
                        have res: "res = Inl (Errorf ''failed to create new admin api client: %w'' [] err)"
                          and "tr = t9 @ [NewAdminAPICalled [?url] (Some err)]"
                          by (auto simp: StartContainer_def Let_def NewAdminAPI_def)
                        then have tr: "tr = t2 @ [GenericContainerCalled req (Inr c),
                HostCalled c (Inr hostIP),
                MappedPortCalled c defaultKafkaAPIPort (Inr kafkaPort),
                RenderNodeConfigCalled hostIP kafkaPort (Inr nodeConfig),
                CopyToContainerCalled c nodeConfig ''/etc/redpanda/redpanda.yaml'' 700 None,
                WaitUntilReadyCalled c None,
                MappedPortCalled c defaultAdminAPIPort (Inr adminAPIPort),
                NewAdminAPICalled [?url] (Some err)]"
                          by (simp add: t7 t8_def t9_def)
                        show thesis by (rule admin_client_failed [OF l2 req_def nc sat ne res tr])
                      next
                        case cl: None
                        define t10 where "t10 = t9 @ [NewAdminAPICalled [?url] None]"
                        have s10: "NewAdminAPI env t9 [?url] = (Inr [?url], t10)"
                          using cl by (simp add: NewAdminAPI_def Let_def t10_def)
                        have t10: "t10 = t2 @ [GenericContainerCalled req (Inr c),
                HostCalled c (Inr hostIP),
                MappedPortCalled c defaultKafkaAPIPort (Inr kafkaPort),
                RenderNodeConfigCalled hostIP kafkaPort (Inr nodeConfig),
                CopyToContainerCalled c nodeConfig ''/etc/redpanda/redpanda.yaml'' 700 None,
                WaitUntilReadyCalled c None,
                MappedPortCalled c defaultAdminAPIPort (Inr adminAPIPort),
                NewAdminAPICalled [?url] None]"
                          by (simp add: t7 t8_def t9_def t10_def)
                        obtain r11 t11 where s11:
                          "createServiceAccounts env [?url] ?order t10 = (r11, t11)"
                          by force
                        from pre2 s3 s4 s5 s6 s7 s8 s9 s10 s11 ne run
                        have fin: "res = (case r11 of Some err \<Rightarrow> Inl err | None \<Rightarrow> Inr \<lparr> Container = c \<rparr>)"
                            "tr = t11"
                          by (auto simp: StartContainer_def Let_def split: option.splits)
                        from createServiceAccounts_shape [OF s11] show thesis
                        proof
                          assume a: "r11 = None \<and> t11 = t10 @ map (account_created [?url]) ?order"
                          with fin have res: "res = Inr \<lparr> Container = c \<rparr>"
                            by simp
                          from a fin have tr: "tr = t2 @ [GenericContainerCalled req (Inr c),
                HostCalled c (Inr hostIP),
                MappedPortCalled c defaultKafkaAPIPort (Inr kafkaPort),
                RenderNodeConfigCalled hostIP kafkaPort (Inr nodeConfig),
                CopyToContainerCalled c nodeConfig ''/etc/redpanda/redpanda.yaml'' 700 None,
                WaitUntilReadyCalled c None,
                MappedPortCalled c defaultAdminAPIPort (Inr adminAPIPort),
                NewAdminAPICalled [?url] None]
                               @ map (account_created [?url]) ?order"
                            by (simp add: t10)
                          show thesis by (rule accounts_created [OF l2 req_def nc sat ne res tr])
                        next
                          assume "\<exists>created username password remaining err.
                             ?order = created @ (username, password) # remaining
                           \<and> r11 = Some (Errorf ''failed to create service account with username %q: %w'' [username] err)
                           \<and> t11 = t10 @ map (account_created [?url]) created
                                 @ [CreateUserCalled [?url] username password ScramSha256 (Some err)]"
                          then obtain created username password remaining err where
                            ord: "?order = created @ (username, password) # remaining" and
                            r11: "r11 = Some (Errorf ''failed to create service account with username %q: %w'' [username] err)" and
                            t11: "t11 = t10 @ map (account_created [?url]) created
                                 @ [CreateUserCalled [?url] username password ScramSha256 (Some err)]"
                            by blast
                          from r11 fin
                          have res: "res = Inl (Errorf ''failed to create service account with username %q: %w'' [username] err)"
                            by simp
                          from t11 fin have tr: "tr = t2 @ [GenericContainerCalled req (Inr c),
                HostCalled c (Inr hostIP),
                MappedPortCalled c defaultKafkaAPIPort (Inr kafkaPort),
                RenderNodeConfigCalled hostIP kafkaPort (Inr nodeConfig),
                CopyToContainerCalled c nodeConfig ''/etc/redpanda/redpanda.yaml'' 700 None,
                WaitUntilReadyCalled c None,
                MappedPortCalled c defaultAdminAPIPort (Inr adminAPIPort),
                NewAdminAPICalled [?url] None]
                                 @ map (account_created [?url]) created
                                 @ [CreateUserCalled [?url] username password ScramSha256 (Some err)]"
                            by (simp add: t10)
                          show thesis by (rule account_failed [OF l2 req_def nc sat ne ord res tr])
                        qed
                      qed
                    qed
                  qed
                qed
              qed
            qed
          qed
        qed
      qed
    qed
  qed
qed

section \<open>Auxiliary facts\<close>

lemma range_order_visits_each_once: "mset (range_order choices entries) = mset entries"
proof (induction choices entries rule: range_order.induct)
  case (1 choices)
  show ?case by simp
next
  case (2 v va)
  show ?case by simp
next
  case (3 n choices v va)
  let ?entries = "v # va"
  let ?i = "n mod length ?entries"
  have i: "?i < length ?entries" by simp
  have "mset ?entries = mset (take ?i ?entries @ ?entries ! ?i # drop (Suc ?i) ?entries)"
    using id_take_nth_drop [OF i] by simp
  also have "\<dots> = mset (?entries ! ?i # (take ?i ?entries @ drop (Suc ?i) ?entries))"
    by simp
  finally show ?case using "3.IH" [OF refl]
    by (simp add: Let_def)
qed

lemma first_hit:
  assumes eq: "xs @ ys = pre @ ev # post" and none: "\<forall>z\<in>set xs. \<not> Q z" and hit: "Q ev"
  shows "\<exists>pre'. pre = xs @ pre' \<and> ys = pre' @ ev # post"
proof -
  from eq obtain us where
    "(xs = pre @ us \<and> us @ ys = ev # post) \<or> (xs @ us = pre \<and> ys = us @ ev # post)"
    by (auto simp: append_eq_append_conv2)
  then show ?thesis
  proof
    assume a: "xs = pre @ us \<and> us @ ys = ev # post"
    show ?thesis
    proof (cases us)
      case Nil
      with a show ?thesis by simp
    next
      case (Cons u us')
      with a have "ev \<in> set xs" by simp
      with none hit show ?thesis by blast
    qed
  next
    assume "xs @ us = pre \<and> ys = us @ ev # post"
    then show ?thesis by blast
  qed
qed

lemma local_not_applies: "list_all is_local evs \<Longrightarrow> \<forall>z\<in>set evs. \<not> applies_node_config z"
proof (induction evs)
  case Nil
  then show ?case by simp
next
  case (Cons e evs)
  then show ?case by (cases e) simp_all
qed

lemma StartContainer_render_shape:
  assumes run: "StartContainer env opts = (res, tr)"
  obtains
    (never) "\<forall>z\<in>set tr. \<not> applies_node_config z"
  | (rendered) files req c hostIP kafkaPort rest where
      "\<forall>z\<in>set files. \<not> applies_node_config z"
      "Started req"
      "tr = (files @ [GenericContainerCalled req (Inr c), HostCalled c (Inr hostIP),
                     MappedPortCalled c defaultKafkaAPIPort (Inr kafkaPort)])
            @ RenderNodeConfigCalled hostIP kafkaPort
                (renderNodeConfig env (gatherSettings opts) hostIP kafkaPort) # rest"
      "rest = [] \<or>
       (\<exists>nodeConfig r rest'.
          renderNodeConfig env (gatherSettings opts) hostIP kafkaPort = Inr nodeConfig
        \<and> rest = CopyToContainerCalled c nodeConfig ''/etc/redpanda/redpanda.yaml'' 700 r # rest'
        \<and> (\<forall>z\<in>set rest'. \<not> applies_node_config z))"
  using run
proof (cases rule: StartContainer_paths)
  case (entrypoint_failed err)
  then show ?thesis using local_not_applies by (intro never) blast
next
  case (bootstrap_failed err)
  then show ?thesis using local_not_applies by (intro never) blast
next
  case (create_failed files entrypointFile bootstrapConfigFile req err)
  then show ?thesis using local_not_applies [of files] by (intro never) simp
next
  case (host_failed files entrypointFile bootstrapConfigFile req c err)
  then show ?thesis using local_not_applies [of files] by (intro never) simp
next
  case (port_failed files entrypointFile bootstrapConfigFile req c hostIP err)
  then show ?thesis using local_not_applies [of files] by (intro never) simp
next
  case (render_failed files entrypointFile bootstrapConfigFile req c hostIP kafkaPort err)
  then show ?thesis using local_not_applies [of files]
    by (intro rendered [of files req c hostIP kafkaPort "[]"]) simp_all
next
  case (copy_failed files entrypointFile bootstrapConfigFile req c hostIP kafkaPort nodeConfig err)
  then show ?thesis using local_not_applies [of files]
    by (intro rendered [of files req c hostIP kafkaPort
          "[CopyToContainerCalled c nodeConfig ''/etc/redpanda/redpanda.yaml'' 700 (Some err)]"]) simp_all
next
  case (wait_failed files entrypointFile bootstrapConfigFile req c hostIP kafkaPort nodeConfig err)
  then show ?thesis using local_not_applies [of files]
    by (intro rendered [of files req c hostIP kafkaPort
          "[CopyToContainerCalled c nodeConfig ''/etc/redpanda/redpanda.yaml'' 700 None,
            WaitUntilReadyCalled c (Some err)]"]) simp_all
next
  case (no_accounts files entrypointFile bootstrapConfigFile req c hostIP kafkaPort nodeConfig)
  then show ?thesis using local_not_applies [of files]
    by (intro rendered [of files req c hostIP kafkaPort
          "[CopyToContainerCalled c nodeConfig ''/etc/redpanda/redpanda.yaml'' 700 None,
            WaitUntilReadyCalled c None]"]) simp_all
next
  case (admin_port_failed files entrypointFile bootstrapConfigFile req c hostIP kafkaPort nodeConfig err)
  then show ?thesis using local_not_applies [of files]
    by (intro rendered [of files req c hostIP kafkaPort
          "[CopyToContainerCalled c nodeConfig ''/etc/redpanda/redpanda.yaml'' 700 None,
            WaitUntilReadyCalled c None, MappedPortCalled c defaultAdminAPIPort (Inl err)]"]) simp_all
next
  case (admin_client_failed files entrypointFile bootstrapConfigFile req c hostIP kafkaPort nodeConfig adminAPIPort err)
  then show ?thesis using local_not_applies [of files]
    by (intro rendered [of files req c hostIP kafkaPort
          "[CopyToContainerCalled c nodeConfig ''/etc/redpanda/redpanda.yaml'' 700 None,
            WaitUntilReadyCalled c None, MappedPortCalled c defaultAdminAPIPort (Inr adminAPIPort),
            NewAdminAPICalled [''http://'' @ hostIP @ '':'' @ fmt_d adminAPIPort] (Some err)]"]) simp_all
next
  case (accounts_created files entrypointFile bootstrapConfigFile req c hostIP kafkaPort nodeConfig adminAPIPort)
  then show ?thesis using local_not_applies [of files]
    by (intro rendered [of files req c hostIP kafkaPort
          "[CopyToContainerCalled c nodeConfig ''/etc/redpanda/redpanda.yaml'' 700 None,
            WaitUntilReadyCalled c None, MappedPortCalled c defaultAdminAPIPort (Inr adminAPIPort),
            NewAdminAPICalled [''http://'' @ hostIP @ '':'' @ fmt_d adminAPIPort] None]
           @ map (account_created [''http://'' @ hostIP @ '':'' @ fmt_d adminAPIPort])
               (range_order (range_choices env) (ServiceAccounts (gatherSettings opts)))"])
       (simp_all add: account_created_def)
next
  case (account_failed files entrypointFile bootstrapConfigFile req c hostIP kafkaPort nodeConfig adminAPIPort
      created username password remaining err)
  then show ?thesis using local_not_applies [of files]
    by (intro rendered [of files req c hostIP kafkaPort
          "[CopyToContainerCalled c nodeConfig ''/etc/redpanda/redpanda.yaml'' 700 None,
            WaitUntilReadyCalled c None, MappedPortCalled c defaultAdminAPIPort (Inr adminAPIPort),
            NewAdminAPICalled [''http://'' @ hostIP @ '':'' @ fmt_d adminAPIPort] None]
           @ map (account_created [''http://'' @ hostIP @ '':'' @ fmt_d adminAPIPort]) created
           @ [CreateUserCalled [''http://'' @ hostIP @ '':'' @ fmt_d adminAPIPort] username password
                ScramSha256 (Some err)]"])
       (simp_all add: account_created_def)
qed

lemma local_quiet:
  "list_all is_local evs \<Longrightarrow>
     (\<forall>z\<in>set evs. \<not> is_failed_CreateUser z \<and> \<not> is_admin z \<and> \<not> is_CreateUser z)"
proof (induction evs)
  case Nil
  then show ?case by simp
next
  case (Cons e evs)
  then show ?case by (cases e) simp_all
qed

lemma local_no_CreateUser: "list_all is_local evs \<Longrightarrow> filter is_CreateUser evs = []"
  using local_quiet [of evs] by (simp add: filter_empty_conv)

lemma created_filter:
  "filter is_CreateUser (map (account_created adminCl) accounts) = map (account_created adminCl) accounts"
  by (induction accounts) (simp_all add: account_created_def)

lemma ports_differ: "defaultKafkaAPIPort \<noteq> defaultAdminAPIPort"
  by (simp add: defaultKafkaAPIPort_def defaultAdminAPIPort_def)

lemma example_env_sel:
  "os_CreateTemp example_env = (\<lambda>tr. Inr (''/tmp/'' @ digits (length tr)))"
  "os_WriteFile example_env = (\<lambda>tr name data perm. None)"
  "entrypoint example_env = ''#!/usr/bin/env bash''"
  "nodeConfigTpl example_env = Inr (\<lambda>p. Inr (AdvertisedHost (KafkaAPI p) @ '':'' @ fmt_d (AdvertisedPort (KafkaAPI p))))"
  "bootstrapConfigTpl example_env = Inr (\<lambda>p. Inr (concat (redpandaBootstrapConfigTplParams.Superusers p)))"
  "rt_GenericContainer example_env = (\<lambda>tr req. Inr 1)"
  "rt_Host example_env = (\<lambda>tr c. Inr ''localhost'')"
  "rt_MappedPort example_env = (\<lambda>tr c port. example_MappedPort port)"
  "rt_CopyToContainer example_env = (\<lambda>tr c fileContent containerFilePath fileMode. None)"
  "deadline example_env = 300 * Millisecond"
  "rt_Logs example_env = (\<lambda>tr c t. if t < 100 * Millisecond then [] else [''Successfully started Redpanda!''])"
  "rt_HTTPGet example_env = (\<lambda>tr c port path t. example_HTTPGet t)"
  "json_Unmarshal example_env = example_Unmarshal"
  "admin_NewAdminAPI example_env = (\<lambda>tr urls. None)"
  "admin_CreateUser example_env = (\<lambda>tr adminCl username password mechanism.
            if username = ''bob'' then Some (Opaque ''user rejected'') else None)"
  "range_choices example_env = []"
  by (simp_all add: example_env_def)

lemmas wait_defs = readiness_def ForAll_def ForLog_def ForHTTP_def WithPort_def
  WithResponseMatcher_def Log_WithPollInterval_def HTTP_WithPollInterval_def

lemma example_poll_times:
  "poll_times 100000000 300000000 = [0, 100000000, 200000000]"
  by (simp add: poll_times_def upt_rec)

lemma example_satisfied: "satisfied example_env tr c (readiness example_env)"
  by (simp add: wait_defs example_poll_times example_env_sel log_attempt_def http_attempt_def
      example_HTTPGet_def healthMatcher_def example_Unmarshal_def Millisecond_def)

lemmas call_defs = CreateTemp_def WriteFile_def GenericContainer_def Host_def MappedPort_def
  CopyToContainer_def NewAdminAPI_def CreateUser_def renderNodeConfig_call_def
  WaitUntilReady_def Let_def

lemma example_files:
  "createEntrypointTmpFile example_env [] =
     (Inr ''/tmp/0'', [CreateTempCalled (Inr ''/tmp/0''),
                       WriteFileCalled ''/tmp/0'' ''#!/usr/bin/env bash'' 448 None])"
  "createBootstrapConfigFile example_env settings
       [CreateTempCalled (Inr ''/tmp/0''), WriteFileCalled ''/tmp/0'' ''#!/usr/bin/env bash'' 448 None] =
     (Inr ''/tmp/2'', [CreateTempCalled (Inr ''/tmp/0''),
                       WriteFileCalled ''/tmp/0'' ''#!/usr/bin/env bash'' 448 None,
                       CreateTempCalled (Inr ''/tmp/2''),
                       WriteFileCalled ''/tmp/2'' (concat (options.Superusers settings)) 448 None])"
  by (simp_all add: createEntrypointTmpFile_def createBootstrapConfigFile_def call_defs
      example_env_sel digits.simps)

lemma example_settings:
  "gatherSettings [] = defaultOptions"
  "ServiceAccounts (gatherSettings three_accounts) = [(''alice'', ''a''), (''bob'', ''b''), (''carol'', ''c'')]"
  by (simp_all add: gatherSettings_def three_accounts_def WithNewServiceAccount_def defaultOptions_def)

lemmas example_defs = StartContainer_def example_files call_defs example_env_sel
  example_satisfied example_MappedPort_def defaultKafkaAPIPort_def defaultAdminAPIPort_def
  renderNodeConfig_def fmt_d_def digits.simps example_ready_def example_rendered_def

lemma example_run:
  "StartContainer example_env [] = (Inr \<lparr> Container = 1 \<rparr>, example_ready [])"
  by (simp add: example_defs example_settings defaultOptions_def)

lemma example_run_accounts:
  "StartContainer example_env three_accounts =
     (Inl (Errorf ''failed to create service account with username %q: %w'' [''bob'']
            (Opaque ''user rejected'')),
      (example_ready three_accounts
       @ [MappedPortCalled 1 ''9644/tcp'' (Inr 55002),
          NewAdminAPICalled [''http://localhost:55002''] None,
          CreateUserCalled [''http://localhost:55002''] ''alice'' ''a'' ScramSha256 None])
      @ CreateUserCalled [''http://localhost:55002''] ''bob'' ''b'' ScramSha256
          (Some (Opaque ''user rejected'')) # [])"
  by (simp add: example_defs example_settings)

lemma local_not_request: "list_all is_local evs \<Longrightarrow> GenericContainerCalled req r \<notin> set evs"
proof (induction evs)
  case Nil
  then show ?case by simp
next
  case (Cons e evs)
  then show ?case by (cases e) simp_all
qed

lemma StartContainer_request:
  assumes run: "StartContainer env opts = (res, tr)"
    and mem: "GenericContainerCalled req r \<in> set tr"
  shows "(\<exists>entrypointFile bootstrapConfigFile.
            req = \<lparr> ContainerRequest = containerReq (gatherSettings opts) entrypointFile bootstrapConfigFile,
                    Started = True \<rparr>)
       \<and> (\<forall>err. r = Inl err \<longrightarrow> res = Inl err)"
  using run
  by (cases rule: StartContainer_paths)
     (use mem local_not_request in \<open>auto simp: account_created_def\<close>)

lemma StartContainer_wrapped:
  assumes run: "StartContainer env opts = (res, tr)" and fails: "res = Inl e"
  shows "(\<exists>format args cause. e = Errorf format args cause \<and> format \<in> set stage_formats)
       \<or> (\<exists>req. GenericContainerCalled req (Inl e) \<in> set tr)"
  using run
  by (cases rule: StartContainer_paths) (use fails in \<open>auto simp: stage_formats_def\<close>)

lemma unreachable_run:
  "StartContainer unreachable_env [] =
     (Inl (Opaque ''Cannot connect to the Docker daemon''),
      [CreateTempCalled (Inr ''/tmp/0''),
       WriteFileCalled ''/tmp/0'' ''#!/usr/bin/env bash'' 448 None,
       CreateTempCalled (Inr ''/tmp/2''),
       WriteFileCalled ''/tmp/2'' [] 448 None,
       GenericContainerCalled
         \<lparr> ContainerRequest = containerReq (gatherSettings []) ''/tmp/0'' ''/tmp/2'',
           Started = True \<rparr>
         (Inl (Opaque ''Cannot connect to the Docker daemon''))])"
  by (simp add: unreachable_env_def StartContainer_def createEntrypointTmpFile_def
      createBootstrapConfigFile_def call_defs example_env_sel digits.simps example_settings
      defaultOptions_def)

section \<open>Ordering of the node configuration\<close>

text \<open>
  C1. Whenever \<open>StartContainer\<close> renders the node configuration or copies it into the
  container, the calls made before that moment include the creation of the started
  container and the successful resolution of its host and of the mapped port of
  9092/tcp; the rendering is done with exactly these two values, and what is copied is
  the result of that rendering. Hence no path renders or copies before the port is known.
\<close>

theorem node_config_after_port:
  assumes run: "StartContainer env opts = (res, tr)"
    and split: "tr = pre @ ev # post"
    and applies: "applies_node_config ev"
  shows "\<exists>req c hostIP kafkaPort.
           Started req
         \<and> GenericContainerCalled req (Inr c) \<in> set pre
         \<and> HostCalled c (Inr hostIP) \<in> set pre
         \<and> MappedPortCalled c ''9092/tcp'' (Inr kafkaPort) \<in> set pre
         \<and> (ev = RenderNodeConfigCalled hostIP kafkaPort
                    (renderNodeConfig env (gatherSettings opts) hostIP kafkaPort)
            \<or> (\<exists>nodeConfig r.
                  renderNodeConfig env (gatherSettings opts) hostIP kafkaPort = Inr nodeConfig
                \<and> RenderNodeConfigCalled hostIP kafkaPort (Inr nodeConfig) \<in> set pre
                \<and> ev = CopyToContainerCalled c nodeConfig ''/etc/redpanda/redpanda.yaml'' 700 r))"
  using run
proof (cases rule: StartContainer_render_shape)
  case never
  with split applies show ?thesis by simp
next
  case (rendered files req c hostIP kafkaPort rest)
  let ?known = "files @ [GenericContainerCalled req (Inr c), HostCalled c (Inr hostIP),
                     MappedPortCalled c defaultKafkaAPIPort (Inr kafkaPort)]"
  let ?render = "RenderNodeConfigCalled hostIP kafkaPort
                   (renderNodeConfig env (gatherSettings opts) hostIP kafkaPort)"
  have quiet: "\<forall>z\<in>set ?known. \<not> applies_node_config z"
    using rendered(1) by simp
  from rendered(3) split have "?known @ (?render # rest) = pre @ ev # post"
    by simp
  from first_hit [OF this quiet applies] obtain mid where
    pre: "pre = ?known @ mid" and tail: "?render # rest = mid @ ev # post"
    by blast
  show ?thesis
  proof (cases mid)
    case Nil
    with tail have "ev = ?render" by simp
    with pre rendered(2) show ?thesis
      by (auto simp: defaultKafkaAPIPort_def)
  next
    case (Cons e mid2)
    with tail have e: "e = ?render" and rest: "rest = mid2 @ ev # post"
      by simp_all
    from rest rendered(4) obtain nodeConfig r rest2 where
      nc: "renderNodeConfig env (gatherSettings opts) hostIP kafkaPort = Inr nodeConfig" and
      rest2: "rest = CopyToContainerCalled c nodeConfig ''/etc/redpanda/redpanda.yaml'' 700 r # rest2" and
      quiet2: "\<forall>z\<in>set rest2. \<not> applies_node_config z"
      by auto
    show ?thesis
    proof (cases mid2)
      case Nil
      with rest rest2 have "ev = CopyToContainerCalled c nodeConfig ''/etc/redpanda/redpanda.yaml'' 700 r"
        by simp
      with pre Cons e Nil nc rendered(2) show ?thesis
        by (auto simp: defaultKafkaAPIPort_def)
    next
      case (Cons e2 mid3)
      with rest rest2 have "rest2 = mid3 @ ev # post" by simp
      with quiet2 applies show ?thesis by simp
    qed
  qed
qed

theorem node_config_after_port_witness:
  "StartContainer example_env [] =
     (Inr \<lparr> Container = 1 \<rparr>,
      example_rendered []
      @ CopyToContainerCalled 1 ''localhost:55001'' ''/etc/redpanda/redpanda.yaml'' 700 None
      # [WaitUntilReadyCalled 1 None])
   \<and> applies_node_config
        (CopyToContainerCalled 1 ''localhost:55001'' ''/etc/redpanda/redpanda.yaml'' 700 None)
   \<and> (\<exists>req c hostIP kafkaPort.
           Started req
         \<and> GenericContainerCalled req (Inr c) \<in> set (example_rendered [])
         \<and> HostCalled c (Inr hostIP) \<in> set (example_rendered [])
         \<and> MappedPortCalled c ''9092/tcp'' (Inr kafkaPort) \<in> set (example_rendered [])
         \<and> (CopyToContainerCalled 1 ''localhost:55001'' ''/etc/redpanda/redpanda.yaml'' 700 None
               = RenderNodeConfigCalled hostIP kafkaPort
                    (renderNodeConfig example_env (gatherSettings []) hostIP kafkaPort)
            \<or> (\<exists>nodeConfig r.
                  renderNodeConfig example_env (gatherSettings []) hostIP kafkaPort = Inr nodeConfig
                \<and> RenderNodeConfigCalled hostIP kafkaPort (Inr nodeConfig) \<in> set (example_rendered [])
                \<and> CopyToContainerCalled 1 ''localhost:55001'' ''/etc/redpanda/redpanda.yaml'' 700 None
                    = CopyToContainerCalled c nodeConfig ''/etc/redpanda/redpanda.yaml'' 700 r)))"
proof -
  have run: "StartContainer example_env [] =
     (Inr \<lparr> Container = 1 \<rparr>,
      example_rendered []
      @ CopyToContainerCalled 1 ''localhost:55001'' ''/etc/redpanda/redpanda.yaml'' 700 None
      # [WaitUntilReadyCalled 1 None])"
    by (simp add: example_run example_ready_def)
  have ap: "applies_node_config
        (CopyToContainerCalled 1 ''localhost:55001'' ''/etc/redpanda/redpanda.yaml'' 700 None)"
    by simp
  show ?thesis
    by (rule conjI [OF run conjI [OF ap node_config_after_port [OF run refl ap]]])
qed

section \<open>The readiness wait\<close>

text \<open>
  C2. The strategy \<open>StartContainer\<close> waits on is the composite of a log check for the
  line "Successfully started Redpanda!" and an HTTP check of /v1/cluster/health_overview
  on 9644/tcp, each with a poll interval of 100ms. The wait returns no error exactly
  when some poll of the log check sees the line and some poll of the HTTP check gets a
  response that is accepted. The response matcher accepts a body exactly when it can be
  read, decodes as a cluster health overview and that overview is healthy; a body that
  cannot be read or decoded is refused, which makes its poll not ready and leaves the
  later polls to decide. \<open>StartContainer\<close> returns a container only after a wait that was
  satisfied in this sense. (The semantics of the wait is modelled from the spec.)
\<close>

theorem readiness_requires_both:
  "readiness env =
     MultiS [LogS \<lparr> Log = ''Successfully started Redpanda!'', PollInterval = 100 * Millisecond \<rparr>,
             HTTPS \<lparr> Port = ''9644/tcp'', Path = ''/v1/cluster/health_overview'',
                     ResponseMatcher = healthMatcher env, PollInterval = 100 * Millisecond \<rparr>]
   \<and> ((fst (WaitUntilReady env tr c (readiness env)) = None) =
        ((\<exists>t \<in> set (poll_times (100 * Millisecond) (deadline env)).
             ''Successfully started Redpanda!'' \<in> set (rt_Logs env tr c t))
       \<and> (\<exists>t \<in> set (poll_times (100 * Millisecond) (deadline env)).
             \<exists>status body.
               rt_HTTPGet env tr c ''9644/tcp'' ''/v1/cluster/health_overview'' t = Response status body
             \<and> 200 \<le> status \<and> status < 300 \<and> healthMatcher env body)))
   \<and> (healthMatcher env body =
        (\<exists>response overview.
           body = Body response \<and> json_Unmarshal env response = Inr overview \<and> IsHealthy overview))
   \<and> (\<forall>k tr'.
         StartContainer env opts = (Inr k, tr') \<longrightarrow>
           (\<exists>pre post.
              tr' = pre @ WaitUntilReadyCalled (Container k) None # post
            \<and> satisfied env pre (Container k) (readiness env)))"
proof (intro conjI allI impI)
  show "readiness env =
     MultiS [LogS \<lparr> Log = ''Successfully started Redpanda!'', PollInterval = 100 * Millisecond \<rparr>,
             HTTPS \<lparr> Port = ''9644/tcp'', Path = ''/v1/cluster/health_overview'',
                     ResponseMatcher = healthMatcher env, PollInterval = 100 * Millisecond \<rparr>]"
    by (simp add: wait_defs defaultAdminAPIPort_def)
next
  have log: "list_ex (log_attempt env tr c
                \<lparr> Log = ''Successfully started Redpanda!'', PollInterval = 100 * Millisecond \<rparr>) ts
             = (\<exists>t \<in> set ts. ''Successfully started Redpanda!'' \<in> set (rt_Logs env tr c t))" for ts
    by (simp add: list_ex_iff log_attempt_def)
  have http: "list_ex (http_attempt env tr c
                \<lparr> Port = ''9644/tcp'', Path = ''/v1/cluster/health_overview'',
                  ResponseMatcher = healthMatcher env, PollInterval = 100 * Millisecond \<rparr>) ts
             = (\<exists>t \<in> set ts. \<exists>status body.
                  rt_HTTPGet env tr c ''9644/tcp'' ''/v1/cluster/health_overview'' t = Response status body
                \<and> 200 \<le> status \<and> status < 300 \<and> healthMatcher env body)" for ts
  proof -
    have "http_attempt env tr c
                \<lparr> Port = ''9644/tcp'', Path = ''/v1/cluster/health_overview'',
                  ResponseMatcher = healthMatcher env, PollInterval = 100 * Millisecond \<rparr> t
          = (\<exists>status body.
                  rt_HTTPGet env tr c ''9644/tcp'' ''/v1/cluster/health_overview'' t = Response status body
                \<and> 200 \<le> status \<and> status < 300 \<and> healthMatcher env body)" for t
      by (cases "rt_HTTPGet env tr c ''9644/tcp'' ''/v1/cluster/health_overview'' t")
         (simp_all add: http_attempt_def)
    then show ?thesis by (simp add: list_ex_iff)
  qed
  show "(fst (WaitUntilReady env tr c (readiness env)) = None) =
        ((\<exists>t \<in> set (poll_times (100 * Millisecond) (deadline env)).
             ''Successfully started Redpanda!'' \<in> set (rt_Logs env tr c t))
       \<and> (\<exists>t \<in> set (poll_times (100 * Millisecond) (deadline env)).
             \<exists>status body.
               rt_HTTPGet env tr c ''9644/tcp'' ''/v1/cluster/health_overview'' t = Response status body
             \<and> 200 \<le> status \<and> status < 300 \<and> healthMatcher env body))"
    by (simp add: WaitUntilReady_def Let_def wait_defs defaultAdminAPIPort_def log http)
next
  show "healthMatcher env body =
        (\<exists>response overview.
           body = Body response \<and> json_Unmarshal env response = Inr overview \<and> IsHealthy overview)"
    by (auto simp: healthMatcher_def split: reader.splits sum.splits)
next
  fix k tr'
  assume run: "StartContainer env opts = (Inr k, tr')"
  then show "\<exists>pre post.
              tr' = pre @ WaitUntilReadyCalled (Container k) None # post
            \<and> satisfied env pre (Container k) (readiness env)"
  proof (cases rule: StartContainer_paths)
    case (no_accounts files entrypointFile bootstrapConfigFile req c hostIP kafkaPort nodeConfig)
    from no_accounts(6) have k: "Container k = c" by auto
    from no_accounts(7) have "tr' = (files @ [GenericContainerCalled req (Inr c), HostCalled c (Inr hostIP),
        MappedPortCalled c defaultKafkaAPIPort (Inr kafkaPort),
        RenderNodeConfigCalled hostIP kafkaPort (Inr nodeConfig),
        CopyToContainerCalled c nodeConfig ''/etc/redpanda/redpanda.yaml'' 700 None])
        @ WaitUntilReadyCalled (Container k) None # []"
      by (simp add: k)
    with no_accounts(4) k show ?thesis by blast
  next
    case (accounts_created files entrypointFile bootstrapConfigFile req c hostIP kafkaPort nodeConfig adminAPIPort)
    from accounts_created(6) have k: "Container k = c" by auto
    from accounts_created(7) have "tr' = (files @ [GenericContainerCalled req (Inr c), HostCalled c (Inr hostIP),
        MappedPortCalled c defaultKafkaAPIPort (Inr kafkaPort),
        RenderNodeConfigCalled hostIP kafkaPort (Inr nodeConfig),
        CopyToContainerCalled c nodeConfig ''/etc/redpanda/redpanda.yaml'' 700 None])
        @ WaitUntilReadyCalled (Container k) None #
          ([MappedPortCalled c defaultAdminAPIPort (Inr adminAPIPort),
            NewAdminAPICalled [''http://'' @ hostIP @ '':'' @ fmt_d adminAPIPort] None]
           @ map (account_created [''http://'' @ hostIP @ '':'' @ fmt_d adminAPIPort])
               (range_order (range_choices env) (ServiceAccounts (gatherSettings opts))))"
      by (simp add: k)
    with accounts_created(4) k show ?thesis by blast
  qed simp_all
qed

theorem readiness_requires_both_witness:
  "fst (WaitUntilReady example_env [] 1 (readiness example_env)) = None
   \<and> rt_HTTPGet example_env [] 1 ''9644/tcp'' ''/v1/cluster/health_overview'' 0 = ConnectionFailed
   \<and> rt_HTTPGet example_env [] 1 ''9644/tcp'' ''/v1/cluster/health_overview'' (100 * Millisecond)
       = Response 200 (Body ''<html>'')
   \<and> healthMatcher example_env (Body ''<html>'') = False
   \<and> healthMatcher example_env (Unreadable (Opaque ''unexpected EOF'')) = False
   \<and> healthMatcher example_env (Body ''unhealthy'') = False
   \<and> healthMatcher example_env (Body ''healthy'') = True
   \<and> ''Successfully started Redpanda!'' \<in> set (rt_Logs log_only_env [] 1 (100 * Millisecond))
   \<and> fst (WaitUntilReady log_only_env [] 1 (readiness log_only_env)) \<noteq> None
   \<and> StartContainer example_env [] = (Inr \<lparr> Container = 1 \<rparr>, example_ready [])
   \<and> (\<exists>pre post.
         example_ready [] = pre @ WaitUntilReadyCalled (Container \<lparr> Container = 1 \<rparr>) None # post
       \<and> satisfied example_env pre (Container \<lparr> Container = 1 \<rparr>) (readiness example_env))"
proof -
  note ex = readiness_requires_both [of example_env "[]" 1]
  have seen: "\<exists>t \<in> set (poll_times (100 * Millisecond) (deadline example_env)).
             ''Successfully started Redpanda!'' \<in> set (rt_Logs example_env [] 1 t)"
    by (simp add: example_env_sel Millisecond_def example_poll_times)
  have healthy: "\<exists>t \<in> set (poll_times (100 * Millisecond) (deadline example_env)).
             \<exists>status body.
               rt_HTTPGet example_env [] 1 ''9644/tcp'' ''/v1/cluster/health_overview'' t
                 = Response status body
             \<and> 200 \<le> status \<and> status < 300 \<and> healthMatcher example_env body"
    by (simp add: example_env_sel Millisecond_def example_poll_times example_HTTPGet_def
        healthMatcher_def example_Unmarshal_def)
  have ready: "fst (WaitUntilReady example_env [] 1 (readiness example_env)) = None"
    by (rule ex [THEN conjunct2, THEN conjunct1, THEN iffD2, OF conjI [OF seen healthy]])
  have refused: "rt_HTTPGet example_env [] 1 ''9644/tcp'' ''/v1/cluster/health_overview'' 0
                   = ConnectionFailed"
    by (simp add: example_env_sel example_HTTPGet_def Millisecond_def)
  have garbled: "rt_HTTPGet example_env [] 1 ''9644/tcp'' ''/v1/cluster/health_overview''
                   (100 * Millisecond) = Response 200 (Body ''<html>'')"
    by (simp add: example_env_sel example_HTTPGet_def Millisecond_def)
  note matcher = readiness_requires_both [THEN conjunct2, THEN conjunct2, THEN conjunct1]
  have m1: "healthMatcher example_env (Body ''<html>'') = False"
    using matcher [of example_env "Body ''<html>''"]
    by (simp add: example_env_sel example_Unmarshal_def)
  have m2: "healthMatcher example_env (Unreadable (Opaque ''unexpected EOF'')) = False"
    using matcher [of example_env "Unreadable (Opaque ''unexpected EOF'')"]
    by simp
  have m3: "healthMatcher example_env (Body ''unhealthy'') = False"
    using matcher [of example_env "Body ''unhealthy''"]
    by (simp add: example_env_sel example_Unmarshal_def)
  have m4: "healthMatcher example_env (Body ''healthy'') = True"
    using matcher [of example_env "Body ''healthy''"]
    by (simp add: example_env_sel example_Unmarshal_def)
  have marker: "''Successfully started Redpanda!'' \<in> set (rt_Logs log_only_env [] 1 (100 * Millisecond))"
    by (simp add: log_only_env_def example_env_sel)
  have never: "fst (WaitUntilReady log_only_env [] 1 (readiness log_only_env)) \<noteq> None"
    using readiness_requires_both [of log_only_env "[]" 1, THEN conjunct2, THEN conjunct1]
    by (simp add: log_only_env_def)
  note returned = readiness_requires_both [of example_env _ _ _ "[]", THEN conjunct2, THEN conjunct2,
      THEN conjunct2, rule_format, OF example_run]
  show ?thesis
    by (rule conjI [OF ready conjI [OF refused conjI [OF garbled conjI [OF m1 conjI [OF m2
          conjI [OF m3 conjI [OF m4 conjI [OF marker conjI [OF never
          conjI [OF example_run returned]]]]]]]]]])
qed

section \<open>Service accounts are created one by one, stopping at the first failure\<close>

text \<open>
  C3. If a \<open>CreateUser\<close> call of \<open>StartContainer\<close> fails, nothing is called after it, the
  result is the error (no container) whose message carries the username of that call,
  and the accounts attempted before it are exactly those that precede it in the order
  of iteration, each created successfully; the accounts after it are never attempted.
  If the service-account map is empty, neither the lookup of the admin port nor the
  construction of the admin client nor any user creation is called.
\<close>

theorem account_creation_fails_fast:
  assumes run: "StartContainer env opts = (res, tr)"
  shows "(\<forall>pre adminCl username password mechanism err post.
            tr = pre @ CreateUserCalled adminCl username password mechanism (Some err) # post \<longrightarrow>
              post = []
            \<and> res = Inl (Errorf ''failed to create service account with username %q: %w'' [username] err)
            \<and> (\<exists>created remaining.
                  range_order (range_choices env) (ServiceAccounts (gatherSettings opts))
                    = created @ (username, password) # remaining
                \<and> filter is_CreateUser pre = map (account_created adminCl) created))
       \<and> (ServiceAccounts (gatherSettings opts) = [] \<longrightarrow> (\<forall>ev\<in>set tr. \<not> is_admin ev))"
proof (intro conjI allI impI)
  fix pre adminCl username password mechanism err post
  assume split: "tr = pre @ CreateUserCalled adminCl username password mechanism (Some err) # post"
  let ?ev = "CreateUserCalled adminCl username password mechanism (Some err)"
  have hit: "is_failed_CreateUser ?ev" by simp
  from split have mem: "?ev \<in> set tr" by simp
  have nl: "?ev \<notin> set evs" if "list_all is_local evs" for evs
    using local_quiet [OF that] hit by blast
  have goal: "post = []
            \<and> res = Inl (Errorf ''failed to create service account with username %q: %w'' [username] err)
            \<and> (\<exists>created remaining.
                  range_order (range_choices env) (ServiceAccounts (gatherSettings opts))
                    = created @ (username, password) # remaining
                \<and> filter is_CreateUser pre = map (account_created adminCl) created)"
    using run
  proof (cases rule: StartContainer_paths)
    case (account_failed files entrypointFile bootstrapConfigFile req c hostIP kafkaPort nodeConfig
        adminAPIPort created u p remaining e)
    let ?url = "''http://'' @ hostIP @ '':'' @ fmt_d adminAPIPort"
    let ?xs = "files @ [GenericContainerCalled req (Inr c), HostCalled c (Inr hostIP),
                 MappedPortCalled c defaultKafkaAPIPort (Inr kafkaPort),
                 RenderNodeConfigCalled hostIP kafkaPort (Inr nodeConfig),
                 CopyToContainerCalled c nodeConfig ''/etc/redpanda/redpanda.yaml'' 700 None,
                 WaitUntilReadyCalled c None,
                 MappedPortCalled c defaultAdminAPIPort (Inr adminAPIPort),
                 NewAdminAPICalled [?url] None] @ map (account_created [?url]) created"
    have quiet: "\<forall>z\<in>set ?xs. \<not> is_failed_CreateUser z"
      using local_quiet [OF account_failed(1)] by (auto simp: account_created_def)
    from account_failed(8) split
    have "?xs @ [CreateUserCalled [?url] u p ScramSha256 (Some e)] = pre @ ?ev # post"
      by simp
    from first_hit [OF this quiet hit] obtain mid where
      pre: "pre = ?xs @ mid" and tail: "[CreateUserCalled [?url] u p ScramSha256 (Some e)] = mid @ ?ev # post"
      by blast
    from tail have mid: "mid = []" and post: "post = []"
      and same: "adminCl = [?url]" "username = u" "password = p" "err = e"
      by (auto simp: Cons_eq_append_conv)
    have "filter is_CreateUser pre = map (account_created adminCl) created"
      using pre mid same local_no_CreateUser [OF account_failed(1)] by (simp add: created_filter)
    with post same account_failed(6,7) show ?thesis by auto
  qed (use mem nl in \<open>auto simp: account_created_def\<close>)
  from goal show "post = []" by simp
  from goal show "res = Inl (Errorf ''failed to create service account with username %q: %w'' [username] err)"
    by simp
  from goal show "\<exists>created remaining.
                  range_order (range_choices env) (ServiceAccounts (gatherSettings opts))
                    = created @ (username, password) # remaining
                \<and> filter is_CreateUser pre = map (account_created adminCl) created"
    by simp
next
  assume empty: "ServiceAccounts (gatherSettings opts) = []"
  from run show "\<forall>ev\<in>set tr. \<not> is_admin ev"
    by (cases rule: StartContainer_paths)
       (use empty local_quiet ports_differ in \<open>auto\<close>)
qed

theorem account_creation_fails_fast_witness:
  "StartContainer example_env three_accounts =
     (Inl (Errorf ''failed to create service account with username %q: %w'' [''bob'']
            (Opaque ''user rejected'')),
      (example_ready three_accounts
       @ [MappedPortCalled 1 ''9644/tcp'' (Inr 55002),
          NewAdminAPICalled [''http://localhost:55002''] None,
          CreateUserCalled [''http://localhost:55002''] ''alice'' ''a'' ScramSha256 None])
      @ CreateUserCalled [''http://localhost:55002''] ''bob'' ''b'' ScramSha256
          (Some (Opaque ''user rejected'')) # [])
   \<and> ([] = ([] :: event list)
      \<and> (Inl (Errorf ''failed to create service account with username %q: %w'' [''bob'']
                (Opaque ''user rejected'')) :: error + Container)
          = Inl (Errorf ''failed to create service account with username %q: %w'' [''bob'']
                  (Opaque ''user rejected''))
      \<and> (\<exists>created remaining.
            range_order (range_choices example_env) (ServiceAccounts (gatherSettings three_accounts))
              = created @ (''bob'', ''b'') # remaining
          \<and> filter is_CreateUser
                (example_ready three_accounts
                 @ [MappedPortCalled 1 ''9644/tcp'' (Inr 55002),
                    NewAdminAPICalled [''http://localhost:55002''] None,
                    CreateUserCalled [''http://localhost:55002''] ''alice'' ''a'' ScramSha256 None])
              = map (account_created [''http://localhost:55002'']) created))
   \<and> StartContainer example_env [] = (Inr \<lparr> Container = 1 \<rparr>, example_ready [])
   \<and> ServiceAccounts (gatherSettings []) = []
   \<and> list_all (\<lambda>ev. \<not> is_admin ev) (example_ready [])"
proof -
  note failing =
    account_creation_fails_fast [OF example_run_accounts, THEN conjunct1, rule_format, OF refl]
  have empty: "ServiceAccounts (gatherSettings []) = []"
    by (simp add: example_settings defaultOptions_def)
  note skipped =
    account_creation_fails_fast [OF example_run, THEN conjunct2, THEN mp, OF empty]
  show ?thesis
    by (rule conjI [OF example_run_accounts conjI [OF failing
          conjI [OF example_run conjI [OF empty list_all_iff [THEN iffD2, OF skipped]]]]])
qed

section \<open>The endpoint accessors\<close>

text \<open>
  C4. When the runtime resolves the host and the mapped port, \<open>KafkaSeedBroker\<close> returns
  "host:port" for 9092/tcp, \<open>AdminAPIAddress\<close> "http://host:port" for 9644/tcp and
  \<open>SchemaRegistryAddress\<close> "http://host:port" for 8081/tcp, with the host and the port
  the runtime answers at this very call: each call asks the runtime for the host and
  then for the port, whatever was asked before, and keeps nothing. When the host or the
  port cannot be resolved, each of the three returns an error.
\<close>

theorem accessors_resolve:
  "(\<forall>host p.
      rt_Host env tr (Container c) = Inr host \<longrightarrow>
      rt_MappedPort env (tr @ [HostCalled (Container c) (Inr host)]) (Container c) ''9092/tcp'' = Inr p \<longrightarrow>
        KafkaSeedBroker env tr c =
          (Inr (host @ '':'' @ fmt_d p),
           tr @ [HostCalled (Container c) (Inr host), MappedPortCalled (Container c) ''9092/tcp'' (Inr p)]))
   \<and> (\<forall>host p.
      rt_Host env tr (Container c) = Inr host \<longrightarrow>
      rt_MappedPort env (tr @ [HostCalled (Container c) (Inr host)]) (Container c) ''9644/tcp'' = Inr p \<longrightarrow>
        AdminAPIAddress env tr c =
          (Inr (''http://'' @ host @ '':'' @ fmt_d p),
           tr @ [HostCalled (Container c) (Inr host), MappedPortCalled (Container c) ''9644/tcp'' (Inr p)]))
   \<and> (\<forall>host p.
      rt_Host env tr (Container c) = Inr host \<longrightarrow>
      rt_MappedPort env (tr @ [HostCalled (Container c) (Inr host)]) (Container c) ''8081/tcp'' = Inr p \<longrightarrow>
        SchemaRegistryAddress env tr c =
          (Inr (''http://'' @ host @ '':'' @ fmt_d p),
           tr @ [HostCalled (Container c) (Inr host), MappedPortCalled (Container c) ''8081/tcp'' (Inr p)]))
   \<and> (\<forall>err.
      rt_Host env tr (Container c) = Inl err \<longrightarrow>
        fst (KafkaSeedBroker env tr c) = Inl (Errorf ''failed to get hostIP: %w'' [] err)
      \<and> fst (AdminAPIAddress env tr c) = Inl (Errorf ''failed to get hostIP: %w'' [] err)
      \<and> fst (SchemaRegistryAddress env tr c) = Inl (Errorf ''failed to get hostIP: %w'' [] err))
   \<and> (\<forall>host err.
      rt_Host env tr (Container c) = Inr host \<longrightarrow>
      rt_MappedPort env (tr @ [HostCalled (Container c) (Inr host)]) (Container c) ''9092/tcp'' = Inl err \<longrightarrow>
        fst (KafkaSeedBroker env tr c) = Inl (Errorf ''failed to get mapped port: %w'' [] err))
   \<and> (\<forall>host err.
      rt_Host env tr (Container c) = Inr host \<longrightarrow>
      rt_MappedPort env (tr @ [HostCalled (Container c) (Inr host)]) (Container c) ''9644/tcp'' = Inl err \<longrightarrow>
        fst (AdminAPIAddress env tr c) = Inl (Errorf ''failed to get mapped port: %w'' [] err))
   \<and> (\<forall>host err.
      rt_Host env tr (Container c) = Inr host \<longrightarrow>
      rt_MappedPort env (tr @ [HostCalled (Container c) (Inr host)]) (Container c) ''8081/tcp'' = Inl err \<longrightarrow>
        fst (SchemaRegistryAddress env tr c) = Inl (Errorf ''failed to get mapped port: %w'' [] err))"
  by (simp add: KafkaSeedBroker_def AdminAPIAddress_def SchemaRegistryAddress_def
      getMappedHostPort_def Host_def MappedPort_def Let_def defaultKafkaAPIPort_def
      defaultAdminAPIPort_def defaultSchemaRegistryPort_def)

theorem accessors_resolve_witness:
  "KafkaSeedBroker example_env [] \<lparr> Container = 1 \<rparr> =
     (Inr ''localhost:55001'',
      [HostCalled 1 (Inr ''localhost''), MappedPortCalled 1 ''9092/tcp'' (Inr 55001)])
   \<and> AdminAPIAddress example_env [] \<lparr> Container = 1 \<rparr> =
     (Inr ''http://localhost:55002'',
      [HostCalled 1 (Inr ''localhost''), MappedPortCalled 1 ''9644/tcp'' (Inr 55002)])
   \<and> SchemaRegistryAddress example_env [] \<lparr> Container = 1 \<rparr> =
     (Inr ''http://localhost:55003'',
      [HostCalled 1 (Inr ''localhost''), MappedPortCalled 1 ''8081/tcp'' (Inr 55003)])
   \<and> KafkaSeedBroker moving_env [] \<lparr> Container = 1 \<rparr> =
     (Inr ''localhost:55001'',
      [HostCalled 1 (Inr ''localhost''), MappedPortCalled 1 ''9092/tcp'' (Inr 55001)])
   \<and> KafkaSeedBroker moving_env
        [HostCalled 1 (Inr ''localhost''), MappedPortCalled 1 ''9092/tcp'' (Inr 55001)]
        \<lparr> Container = 1 \<rparr> =
     (Inr ''localhost:60001'',
      [HostCalled 1 (Inr ''localhost''), MappedPortCalled 1 ''9092/tcp'' (Inr 55001),
       HostCalled 1 (Inr ''localhost''), MappedPortCalled 1 ''9092/tcp'' (Inr 60001)])
   \<and> fst (KafkaSeedBroker stopped_env [] \<lparr> Container = 1 \<rparr>)
       = Inl (Errorf ''failed to get hostIP: %w'' [] (Opaque ''container is not running''))
   \<and> fst (AdminAPIAddress unmapped_env [] \<lparr> Container = 1 \<rparr>)
       = Inl (Errorf ''failed to get mapped port: %w'' [] (Opaque ''port not found''))"
proof -
  let ?c = "\<lparr> Container = 1 \<rparr>"
  have host: "rt_Host example_env tr (Container ?c) = Inr ''localhost''" for tr
    by (simp add: example_env_sel)
  have port:
    "rt_MappedPort example_env tr (Container ?c) ''9092/tcp'' = Inr 55001"
    "rt_MappedPort example_env tr (Container ?c) ''9644/tcp'' = Inr 55002"
    "rt_MappedPort example_env tr (Container ?c) ''8081/tcp'' = Inr 55003" for tr
    by (simp_all add: example_env_sel example_MappedPort_def)
  note at_start = accessors_resolve [of example_env "[]" ?c]
  have kafka: "KafkaSeedBroker example_env [] ?c =
     (Inr ''localhost:55001'',
      [HostCalled 1 (Inr ''localhost''), MappedPortCalled 1 ''9092/tcp'' (Inr 55001)])"
    using at_start [THEN conjunct1, rule_format, OF host port(1)]
    by (simp add: fmt_d_def digits.simps)
  have admin: "AdminAPIAddress example_env [] ?c =
     (Inr ''http://localhost:55002'',
      [HostCalled 1 (Inr ''localhost''), MappedPortCalled 1 ''9644/tcp'' (Inr 55002)])"
    using at_start [THEN conjunct2, THEN conjunct1, rule_format, OF host port(2)]
    by (simp add: fmt_d_def digits.simps)
  have registry: "SchemaRegistryAddress example_env [] ?c =
     (Inr ''http://localhost:55003'',
      [HostCalled 1 (Inr ''localhost''), MappedPortCalled 1 ''8081/tcp'' (Inr 55003)])"
    using at_start [THEN conjunct2, THEN conjunct2, THEN conjunct1, rule_format, OF host port(3)]
    by (simp add: fmt_d_def digits.simps)
  have mhost: "rt_Host moving_env tr (Container ?c) = Inr ''localhost''" for tr
    by (simp add: moving_env_def example_env_sel)
  have mport1: "rt_MappedPort moving_env ([] @ [HostCalled (Container ?c) (Inr ''localhost'')])
                  (Container ?c) ''9092/tcp'' = Inr 55001"
    by (simp add: moving_env_def)
  have mport2: "rt_MappedPort moving_env
                  ([HostCalled 1 (Inr ''localhost''), MappedPortCalled 1 ''9092/tcp'' (Inr 55001)]
                   @ [HostCalled (Container ?c) (Inr ''localhost'')])
                  (Container ?c) ''9092/tcp'' = Inr 60001"
    by (simp add: moving_env_def)
  have first: "KafkaSeedBroker moving_env [] ?c =
     (Inr ''localhost:55001'',
      [HostCalled 1 (Inr ''localhost''), MappedPortCalled 1 ''9092/tcp'' (Inr 55001)])"
    using accessors_resolve [of moving_env "[]" ?c, THEN conjunct1, rule_format, OF mhost mport1]
    by (simp add: fmt_d_def digits.simps)
  have second: "KafkaSeedBroker moving_env
        [HostCalled 1 (Inr ''localhost''), MappedPortCalled 1 ''9092/tcp'' (Inr 55001)] ?c =
     (Inr ''localhost:60001'',
      [HostCalled 1 (Inr ''localhost''), MappedPortCalled 1 ''9092/tcp'' (Inr 55001),
       HostCalled 1 (Inr ''localhost''), MappedPortCalled 1 ''9092/tcp'' (Inr 60001)])"
    using accessors_resolve [of moving_env
        "[HostCalled 1 (Inr ''localhost''), MappedPortCalled 1 ''9092/tcp'' (Inr 55001)]" ?c,
        THEN conjunct1, rule_format, OF mhost mport2]
    by (simp add: fmt_d_def digits.simps)
  have shost: "rt_Host stopped_env [] (Container ?c) = Inl (Opaque ''container is not running'')"
    by (simp add: stopped_env_def)
  have stopped: "fst (KafkaSeedBroker stopped_env [] ?c)
       = Inl (Errorf ''failed to get hostIP: %w'' [] (Opaque ''container is not running''))"
    using accessors_resolve [of stopped_env "[]" ?c, THEN conjunct2, THEN conjunct2, THEN conjunct2,
        THEN conjunct1, rule_format, OF shost]
    by (elim conjE)
  have uhost: "rt_Host unmapped_env [] (Container ?c) = Inr ''localhost''"
    by (simp add: unmapped_env_def example_env_sel)
  have uport: "rt_MappedPort unmapped_env ([] @ [HostCalled (Container ?c) (Inr ''localhost'')])
                 (Container ?c) ''9644/tcp'' = Inl (Opaque ''port not found'')"
    by (simp add: unmapped_env_def)
  have unmapped: "fst (AdminAPIAddress unmapped_env [] ?c)
       = Inl (Errorf ''failed to get mapped port: %w'' [] (Opaque ''port not found''))"
    by (rule accessors_resolve [of unmapped_env "[]" ?c, THEN conjunct2, THEN conjunct2,
        THEN conjunct2, THEN conjunct2, THEN conjunct2, THEN conjunct1, rule_format, OF uhost uport])
  show ?thesis
    by (rule conjI [OF kafka conjI [OF admin conjI [OF registry conjI [OF first
          conjI [OF second conjI [OF stopped unmapped]]]]]])
qed

section \<open>Which failures carry the context of their stage\<close>

text \<open>
  C5. The claim is that every failing step of \<open>StartContainer\<close> is returned wrapped with
  the context of its stage. The code does so for every step but one: when
  \<open>GenericContainer\<close> (create and start) fails, its error is returned as it is, by
  \<open>return nil, err\<close>. The theorem states both halves: an error of \<open>GenericContainer\<close> is
  the result itself, and every other failure is an \<open>Errorf\<close> with one of the stage
  messages of the source.
\<close>

theorem create_failure_returned_bare:
  assumes run: "StartContainer env opts = (res, tr)"
  shows "(\<forall>req err. GenericContainerCalled req (Inl err) \<in> set tr \<longrightarrow> res = Inl err)
       \<and> (\<forall>e. res = Inl e \<longrightarrow>
             (\<exists>format args cause. e = Errorf format args cause \<and> format \<in> set stage_formats)
           \<or> (\<exists>req. GenericContainerCalled req (Inl e) \<in> set tr))"
proof (intro conjI allI impI)
  fix req err
  assume "GenericContainerCalled req (Inl err) \<in> set tr"
  from StartContainer_request [OF run this] show "res = Inl err"
    by simp
next
  fix e
  assume "res = Inl e"
  from StartContainer_wrapped [OF run this]
  show "(\<exists>format args cause. e = Errorf format args cause \<and> format \<in> set stage_formats)
       \<or> (\<exists>req. GenericContainerCalled req (Inl e) \<in> set tr)" .
qed

theorem create_failure_returned_bare_witness:
  "StartContainer unreachable_env [] =
     (Inl (Opaque ''Cannot connect to the Docker daemon''),
      [CreateTempCalled (Inr ''/tmp/0''),
       WriteFileCalled ''/tmp/0'' ''#!/usr/bin/env bash'' 448 None,
       CreateTempCalled (Inr ''/tmp/2''),
       WriteFileCalled ''/tmp/2'' [] 448 None,
       GenericContainerCalled
         \<lparr> ContainerRequest = containerReq (gatherSettings []) ''/tmp/0'' ''/tmp/2'',
           Started = True \<rparr>
         (Inl (Opaque ''Cannot connect to the Docker daemon''))])
   \<and> GenericContainerCalled
         \<lparr> ContainerRequest = containerReq (gatherSettings []) ''/tmp/0'' ''/tmp/2'',
           Started = True \<rparr>
         (Inl (Opaque ''Cannot connect to the Docker daemon''))
       \<in> set [CreateTempCalled (Inr ''/tmp/0''),
              WriteFileCalled ''/tmp/0'' ''#!/usr/bin/env bash'' 448 None,
              CreateTempCalled (Inr ''/tmp/2''),
              WriteFileCalled ''/tmp/2'' [] 448 None,
              GenericContainerCalled
                \<lparr> ContainerRequest = containerReq (gatherSettings []) ''/tmp/0'' ''/tmp/2'',
                  Started = True \<rparr>
                (Inl (Opaque ''Cannot connect to the Docker daemon''))]
   \<and> (Inl (Opaque ''Cannot connect to the Docker daemon'') :: error + Container)
       = Inl (Opaque ''Cannot connect to the Docker daemon'')
   \<and> (\<nexists>format args cause.
         Opaque ''Cannot connect to the Docker daemon'' = Errorf format args cause)"
proof -
  have mem: "GenericContainerCalled
         \<lparr> ContainerRequest = containerReq (gatherSettings []) ''/tmp/0'' ''/tmp/2'',
           Started = True \<rparr>
         (Inl (Opaque ''Cannot connect to the Docker daemon''))
       \<in> set [CreateTempCalled (Inr ''/tmp/0''),
              WriteFileCalled ''/tmp/0'' ''#!/usr/bin/env bash'' 448 None,
              CreateTempCalled (Inr ''/tmp/2''),
              WriteFileCalled ''/tmp/2'' [] 448 None,
              GenericContainerCalled
                \<lparr> ContainerRequest = containerReq (gatherSettings []) ''/tmp/0'' ''/tmp/2'',
                  Started = True \<rparr>
                (Inl (Opaque ''Cannot connect to the Docker daemon''))]"
    by simp
  note bare = create_failure_returned_bare [OF unreachable_run, THEN conjunct1, rule_format, OF mem]
  have opaque: "\<nexists>format args cause.
         Opaque ''Cannot connect to the Docker daemon'' = Errorf format args cause"
    by simp
  show ?thesis
    by (rule conjI [OF unreachable_run conjI [OF mem conjI [OF bare opaque]]])
qed

section \<open>The container request\<close>

text \<open>
  C6. The claim is that the request issued by \<open>StartContainer\<close> has user "root:root",
  the three exposed ports, an empty entrypoint, the four-word command and two files, each
  with file mode 0700. Every part holds but the last: the source writes \<open>FileMode: 700\<close>,
  the decimal number 700, where the same file writes \<open>0o700\<close> for the local copies of the
  same two files. The theorem states the request as issued, and that the mode 700 is not
  \<open>0o700\<close> and does not give the owner the execute permission.
\<close>

theorem container_request_as_issued:
  assumes run: "StartContainer env opts = (res, tr)"
    and mem: "GenericContainerCalled req r \<in> set tr"
  shows "Started req
       \<and> ContainerRequest.Image (ContainerRequest req) = options.Image (gatherSettings opts)
       \<and> User (ContainerRequest req) = ''root:root''
       \<and> ExposedPorts (ContainerRequest req) = [''9092/tcp'', ''9644/tcp'', ''8081/tcp'']
       \<and> Entrypoint (ContainerRequest req) = []
       \<and> Cmd (ContainerRequest req) = [''/entrypoint-tc.sh'', ''redpanda'', ''start'', ''--mode=dev-container'']
       \<and> map ContainerFilePath (Files (ContainerRequest req))
           = [''/entrypoint-tc.sh'', ''/etc/redpanda/.bootstrap.yaml'']
       \<and> map FileMode (Files (ContainerRequest req)) = [700, 700]
       \<and> map (\<lambda>f. FileMode f = octal_700) (Files (ContainerRequest req)) = [False, False]
       \<and> map (\<lambda>f. owner_may_execute (FileMode f)) (Files (ContainerRequest req)) = [False, False]"
proof -
  from StartContainer_request [OF run mem] obtain entrypointFile bootstrapConfigFile where
    "req = \<lparr> ContainerRequest = containerReq (gatherSettings opts) entrypointFile bootstrapConfigFile,
             Started = True \<rparr>"
    by blast
  then show ?thesis
    by (simp add: containerReq_def defaultKafkaAPIPort_def defaultAdminAPIPort_def
        defaultSchemaRegistryPort_def octal_700_def owner_may_execute_def)
qed

theorem container_request_as_issued_witness:
  "StartContainer example_env [] = (Inr \<lparr> Container = 1 \<rparr>, example_ready [])
   \<and> GenericContainerCalled
        \<lparr> ContainerRequest = containerReq (gatherSettings []) ''/tmp/0'' ''/tmp/2'', Started = True \<rparr>
        (Inr 1) \<in> set (example_ready [])
   \<and> map FileMode
        (Files (ContainerRequest
          \<lparr> ContainerRequest = containerReq (gatherSettings []) ''/tmp/0'' ''/tmp/2'', Started = True \<rparr>))
       = [700, 700]
   \<and> map (\<lambda>f. owner_may_execute (FileMode f))
        (Files (ContainerRequest
          \<lparr> ContainerRequest = containerReq (gatherSettings []) ''/tmp/0'' ''/tmp/2'', Started = True \<rparr>))
       = [False, False]
   \<and> owner_may_execute octal_700"
proof -
  have mem: "GenericContainerCalled
        \<lparr> ContainerRequest = containerReq (gatherSettings []) ''/tmp/0'' ''/tmp/2'', Started = True \<rparr>
        (Inr 1) \<in> set (example_ready [])"
    by (simp add: example_ready_def example_rendered_def)
  note issued = container_request_as_issued [OF example_run mem]
  have mode: "map FileMode
        (Files (ContainerRequest
          \<lparr> ContainerRequest = containerReq (gatherSettings []) ''/tmp/0'' ''/tmp/2'', Started = True \<rparr>))
       = [700, 700]"
    using issued by (elim conjE)
  have exec: "map (\<lambda>f. owner_may_execute (FileMode f))
        (Files (ContainerRequest
          \<lparr> ContainerRequest = containerReq (gatherSettings []) ''/tmp/0'' ''/tmp/2'', Started = True \<rparr>))
       = [False, False]"
    using issued by (elim conjE)
  have octal: "owner_may_execute octal_700"
    by (simp add: owner_may_execute_def octal_700_def)
  show ?thesis
    by (rule conjI [OF example_run conjI [OF mem conjI [OF mode conjI [OF exec octal]]]])
qed

section \<open>Properties of the settings\<close>

text \<open>
  C7. Applying \<open>WithSuperusers\<close> twice with lists A and B leaves exactly B in
  \<open>Superusers\<close>, whatever the options value was: the list is replaced, not appended.
\<close>

theorem WithSuperusers_last_wins:
  "options.Superusers (WithSuperusers B (WithSuperusers A opt)) = B"
  by (simp add: WithSuperusers_def)

text \<open>
  C8. \<open>WithEnableSASL\<close> sets \<open>KafkaAuthenticationMethod\<close> to "sasl" and every other field
  of the options value is the same before and after.
\<close>

theorem WithEnableSASL_frame:
  "KafkaAuthenticationMethod (WithEnableSASL opt) = ''sasl''
   \<and> KafkaEnableAuthorization (WithEnableSASL opt) = KafkaEnableAuthorization opt
   \<and> options.Superusers (WithEnableSASL opt) = options.Superusers opt
   \<and> SchemaRegistryAuthenticationMethod (WithEnableSASL opt) = SchemaRegistryAuthenticationMethod opt
   \<and> ServiceAccounts (WithEnableSASL opt) = ServiceAccounts opt
   \<and> options.Image (WithEnableSASL opt) = options.Image opt
   \<and> WithEnableSASL opt = opt\<lparr>KafkaAuthenticationMethod := ''sasl''\<rparr>"
  by (simp add: WithEnableSASL_def)

section \<open>The schema registry option\<close>

text \<open>
  C9. The claim is that \<open>WithEnableSchemaRegistryHTTPBasicAuth\<close> sets
  \<open>SchemaRegistryAuthenticationMethod\<close> to "http_basic" and nothing else. The function
  returns before the closure that makes this assignment: what it returns is a closure
  over the container request with an unfinished body, so no options value is changed by
  it and the method stays what it was ("none" by default).
\<close>

theorem schema_registry_option_assigns_nothing:
  "applyTo WithEnableSchemaRegistryHTTPBasicAuth settings = settings
   \<and> SchemaRegistryAuthenticationMethod (applyTo WithEnableSchemaRegistryHTTPBasicAuth defaultOptions)
       = ''none''
   \<and> SchemaRegistryAuthenticationMethod (applyTo WithEnableSchemaRegistryHTTPBasicAuth defaultOptions)
       \<noteq> ''http_basic''
   \<and> (\<nexists>onOptions. WithEnableSchemaRegistryHTTPBasicAuth = Inr onOptions)"
  by (simp add: applyTo_def WithEnableSchemaRegistryHTTPBasicAuth_def defaultOptions_def)

section \<open>Defaults and accumulated service accounts\<close>

text \<open>
  C10. With no options the settings of \<open>StartContainer\<close> are the defaults: both
  authentication methods "none", authorization off, no superusers, no service accounts,
  and the image docker.redpanda.com/redpandadata/redpanda:v23.1.6, which is the image
  of the request it issues. \<open>WithNewServiceAccount\<close> adds its entry to the accounts
  gathered so far: afterwards the username maps to the new password and every other
  username to what it mapped to before, the keys stay unique, and no other field changes.
\<close>

theorem defaults_and_service_accounts:
  "gatherSettings [] = defaultOptions
   \<and> KafkaAuthenticationMethod (gatherSettings []) = ''none''
   \<and> SchemaRegistryAuthenticationMethod (gatherSettings []) = ''none''
   \<and> KafkaEnableAuthorization (gatherSettings []) = False
   \<and> options.Superusers (gatherSettings []) = []
   \<and> ServiceAccounts (gatherSettings []) = []
   \<and> options.Image (gatherSettings []) = ''docker.redpanda.com/redpandadata/redpanda:v23.1.6''
   \<and> (\<forall>res tr req r.
         StartContainer env [] = (res, tr) \<longrightarrow> GenericContainerCalled req r \<in> set tr \<longrightarrow>
           ContainerRequest.Image (ContainerRequest req)
             = ''docker.redpanda.com/redpandadata/redpanda:v23.1.6'')
   \<and> gatherSettings (opts @ [WithNewServiceAccount username password])
       = WithNewServiceAccount username password (gatherSettings opts)
   \<and> map_of (ServiceAccounts (WithNewServiceAccount username password settings))
       = (map_of (ServiceAccounts settings))(username \<mapsto> password)
   \<and> distinct (map fst (ServiceAccounts (WithNewServiceAccount username password settings)))
       = distinct (map fst (ServiceAccounts settings))
   \<and> WithNewServiceAccount username password settings
       = settings\<lparr>ServiceAccounts := ServiceAccounts (WithNewServiceAccount username password settings)\<rparr>"
proof -
  have defaults: "gatherSettings [] = defaultOptions"
    by (simp add: gatherSettings_def)
  have image: "ContainerRequest.Image (ContainerRequest req)
                 = ''docker.redpanda.com/redpandadata/redpanda:v23.1.6''"
    if "StartContainer env [] = (res, tr)" and "GenericContainerCalled req r \<in> set tr"
    for res tr req r
    using StartContainer_request [OF that] defaults
    by (auto simp: containerReq_def defaultOptions_def)
  have accumulate: "gatherSettings (opts @ [WithNewServiceAccount username password])
       = WithNewServiceAccount username password (gatherSettings opts)"
    by (simp add: gatherSettings_def)
  have entries: "map_of (ServiceAccounts (WithNewServiceAccount username password settings))
       = (map_of (ServiceAccounts settings))(username \<mapsto> password)"
    by (simp add: WithNewServiceAccount_def update_conv')
  have keys: "distinct (map fst (ServiceAccounts (WithNewServiceAccount username password settings)))
       = distinct (map fst (ServiceAccounts settings))"
    by (simp add: WithNewServiceAccount_def update_keys)
  have frame: "WithNewServiceAccount username password settings
       = settings\<lparr>ServiceAccounts := ServiceAccounts (WithNewServiceAccount username password settings)\<rparr>"
    by (simp add: WithNewServiceAccount_def)
  from defaults image accumulate entries keys frame show ?thesis
    by (simp add: defaultOptions_def)
qed

theorem defaults_and_service_accounts_witness:
  "StartContainer example_env [] = (Inr \<lparr> Container = 1 \<rparr>, example_ready [])
   \<and> GenericContainerCalled
        \<lparr> ContainerRequest = containerReq (gatherSettings []) ''/tmp/0'' ''/tmp/2'', Started = True \<rparr>
        (Inr 1) \<in> set (example_ready [])
   \<and> ContainerRequest.Image (ContainerRequest
        \<lparr> ContainerRequest = containerReq (gatherSettings []) ''/tmp/0'' ''/tmp/2'', Started = True \<rparr>)
       = ''docker.redpanda.com/redpandadata/redpanda:v23.1.6''
   \<and> map_of (ServiceAccounts
         (WithNewServiceAccount ''alice'' ''new''
           (WithNewServiceAccount ''bob'' ''b'' (WithNewServiceAccount ''alice'' ''a'' defaultOptions))))
       = [''bob'' \<mapsto> ''b'', ''alice'' \<mapsto> ''new'']"
proof -
  have mem: "GenericContainerCalled
        \<lparr> ContainerRequest = containerReq (gatherSettings []) ''/tmp/0'' ''/tmp/2'', Started = True \<rparr>
        (Inr 1) \<in> set (example_ready [])"
    by (simp add: example_ready_def example_rendered_def)
  note inst = defaults_and_service_accounts [of example_env]
  note image = inst [THEN conjunct2, THEN conjunct2, THEN conjunct2, THEN conjunct2,
      THEN conjunct2, THEN conjunct2, THEN conjunct2, THEN conjunct1, rule_format,
      OF example_run mem]
  have accounts: "map_of (ServiceAccounts
         (WithNewServiceAccount ''alice'' ''new''
           (WithNewServiceAccount ''bob'' ''b'' (WithNewServiceAccount ''alice'' ''a'' defaultOptions))))
       = [''bob'' \<mapsto> ''b'', ''alice'' \<mapsto> ''new'']"
    by (simp add: WithNewServiceAccount_def defaultOptions_def fun_upd_twist)
  show ?thesis
    by (rule conjI [OF example_run conjI [OF mem conjI [OF image accounts]]])
qed

end
